theory Spec2Isabelle
  imports Complex_Main
begin

section \<open>Python values, exceptions and indexing\<close>

text \<open>
  The sources are Python. A raised exception is the \<open>Inl\<close> branch of a sum, a
  returned value the \<open>Inr\<close> branch. Floating-point numbers are modelled by the
  reals; the one place where IEEE arithmetic leaves the reals in the code below,
  a division by zero (which numpy answers with \<open>nan\<close> or \<open>inf\<close>, not with an
  exception), is the value \<open>NonFinite\<close>.
\<close>

datatype error = AssertionError | AttributeError | IndexError | KeyError | TypeError
  | ValueError | NotImplementedError

definition ebind :: "error + 'a \<Rightarrow> ('a \<Rightarrow> error + 'b) \<Rightarrow> error + 'b" where
  "ebind m f = (case m of Inl e \<Rightarrow> Inl e | Inr x \<Rightarrow> f x)"

lemma ebind_simps [simp]: "ebind (Inl e) f = Inl e" "ebind (Inr x) f = f x"
  by (simp_all add: ebind_def)

lemma ebind_eq_Inr: "ebind m f = Inr y \<longleftrightarrow> (\<exists>x. m = Inr x \<and> f x = Inr y)"
  by (cases m) simp_all

datatype npfloat = Fin real | NonFinite

definition np_div :: "real \<Rightarrow> real \<Rightarrow> npfloat" where
  "np_div a b = (if b = 0 then NonFinite else Fin (a / b))"

fun np_sub :: "npfloat \<Rightarrow> npfloat \<Rightarrow> npfloat" where
  "np_sub (Fin a) (Fin b) = Fin (a - b)"
| "np_sub _ _ = NonFinite"

text \<open>The scalar values a legacy parameter dict holds.\<close>

datatype pyval = VNone | VBool bool | VInt int | VFloat real | VStr string

text \<open>
  The values a constructor argument can be: \<open>PyArr2 D rows\<close> is an ndarray of
  shape \<open>(length rows, D)\<close>, \<open>PyArr1\<close> a one-dimensional ndarray, \<open>PyFun\<close> a
  callable from a design matrix to a vector of outputs.
\<close>

datatype pyobj = PyNone | PyBool bool | PyInt int | PyFloat npfloat | PyStr string
  | PyStrList "string list" | PyArr1 "real list" | PyArr2 nat "real list list"
  | PyFun "real list list \<Rightarrow> real list"

text \<open>\<open>centering\<close> arguments are \<open>bool | str\<close>.\<close>

datatype centering = CBool bool | CStr string

text \<open>
  Indexing, \<open>xs[i]\<close> and \<open>xs[i] = v\<close>, of a list or of an ndarray along one
  axis of length \<open>n\<close>: positions \<open>0 .. n-1\<close> are themselves, \<open>-n .. -1\<close> count
  from the end, anything else raises \<open>IndexError\<close>.
\<close>

definition py_pos :: "nat \<Rightarrow> int \<Rightarrow> nat option" where
  "py_pos n i =
     (if 0 \<le> i \<and> i < int n then Some (nat i)
      else if i < 0 \<and> - int n \<le> i then Some (nat (int n + i))
      else None)"

definition py_index :: "'a list \<Rightarrow> int \<Rightarrow> error + 'a" where
  "py_index xs i = (case py_pos (length xs) i of None \<Rightarrow> Inl IndexError | Some k \<Rightarrow> Inr (xs ! k))"

definition py_setitem :: "'a list \<Rightarrow> int \<Rightarrow> 'a \<Rightarrow> error + 'a list" where
  "py_setitem xs i v =
     (case py_pos (length xs) i of None \<Rightarrow> Inl IndexError | Some k \<Rightarrow> Inr (xs[k := v]))"

lemma py_pos_less: "py_pos n i = Some k \<Longrightarrow> k < n"
  by (auto simp: py_pos_def split: if_splits)

text \<open>\<open>d[k]\<close> of a dict.\<close>

definition py_getitem :: "('k \<rightharpoonup> 'v) \<Rightarrow> 'k \<Rightarrow> error + 'v" where
  "py_getitem d k = (case d k of None \<Rightarrow> Inl KeyError | Some v \<Rightarrow> Inr v)"

text \<open>\<open>str(i)\<close> of an integer, in decimal.\<close>

definition digit_char :: "nat \<Rightarrow> char" where
  "digit_char d = char_of (48 + d)"

fun str_nat :: "nat \<Rightarrow> string" where
  "str_nat n = (if n < 10 then [digit_char n] else str_nat (n div 10) @ [digit_char (n mod 10)])"

declare str_nat.simps [simp del]

definition str_int :: "int \<Rightarrow> string" where
  "str_int i = (if i < 0 then CHR ''-'' # str_nat (nat (- i)) else str_nat (nat i))"

text \<open>The dict key \<open>"feature_" + str(s)\<close>.\<close>

definition feature_key :: "int \<Rightarrow> string" where
  "feature_key s = ''feature_'' @ str_int s"

definition digit_val :: "char \<Rightarrow> nat" where
  "digit_val c = of_char c - 48"

definition digits_val :: "string \<Rightarrow> nat" where
  "digits_val s = foldl (\<lambda>a c. 10 * a + digit_val c) 0 s"

lemma digit_val_digit_char: "d < 10 \<Longrightarrow> digit_val (digit_char d) = d"
  by (simp add: digit_val_def digit_char_def)

lemma digits_val_str_nat: "digits_val (str_nat n) = n"
proof (induction n rule: str_nat.induct)
  case (1 n)
  show ?case
  proof (cases "n < 10")
    case True
    then show ?thesis
      by (subst str_nat.simps) (simp add: digits_val_def digit_val_digit_char)
  next
    case False
    with 1 have ih: "digits_val (str_nat (n div 10)) = n div 10" by simp
    have "digits_val (str_nat n) = 10 * digits_val (str_nat (n div 10)) + n mod 10"
      using False by (subst str_nat.simps) (simp add: digits_val_def digit_val_digit_char)
    then show ?thesis using ih by simp
  qed
qed

lemma str_nat_inj: "str_nat m = str_nat n \<Longrightarrow> m = n"
  by (metis digits_val_str_nat)

lemma digit_char_not_minus: "d < 10 \<Longrightarrow> digit_char d \<noteq> CHR ''-''"
proof
  assume d: "d < 10" and eq: "digit_char d = CHR ''-''"
  have "(of_char (digit_char d) :: nat) = 48 + d"
    using d by (simp add: digit_char_def)
  moreover have "(of_char (CHR ''-'') :: nat) = 45" by simp
  ultimately show False using eq by simp
qed

lemma str_nat_not_Nil: "str_nat n \<noteq> []"
  by (subst str_nat.simps) simp

lemma hd_str_nat_not_minus: "hd (str_nat n) \<noteq> CHR ''-''"
proof (induction n rule: str_nat.induct)
  case (1 n)
  show ?case
  proof (cases "n < 10")
    case True
    then show ?thesis
      by (subst str_nat.simps) (simp add: digit_char_not_minus)
  next
    case False
    show ?thesis using False 1 str_nat_not_Nil [of "n div 10"]
      by (subst str_nat.simps) simp
  qed
qed

lemma str_int_inj: "str_int i = str_int j \<Longrightarrow> i = j"
proof -
  assume eq: "str_int i = str_int j"
  have neg: "CHR ''-'' # str_nat a \<noteq> str_nat b" for a b
    using hd_str_nat_not_minus [of b] by (metis list.sel(1))
  show "i = j"
  proof (cases "i < 0"; cases "j < 0")
    assume "i < 0" "j < 0"
    with eq have "nat (- i) = nat (- j)" by (simp add: str_int_def str_nat_inj)
    with \<open>i < 0\<close> \<open>j < 0\<close> show ?thesis by simp
  next
    assume "i < 0" "\<not> j < 0"
    with eq neg show ?thesis by (simp add: str_int_def)
  next
    assume "\<not> i < 0" "j < 0"
    with eq neg [of "nat (- j)" "nat i"] show ?thesis by (simp add: str_int_def)
  next
    assume "\<not> i < 0" "\<not> j < 0"
    with eq have "nat i = nat j" by (simp add: str_int_def str_nat_inj)
    with \<open>\<not> i < 0\<close> \<open>\<not> j < 0\<close> show ?thesis by simp
  qed
qed

lemma feature_key_inj: "feature_key s = feature_key t \<longleftrightarrow> s = t"
  by (auto simp: feature_key_def dest: str_int_inj)

lemma str_int_0 [simp]: "str_int 0 = ''0''"
  by code_simp

lemma str_int_1 [simp]: "str_int 1 = ''1''"
  by code_simp

lemma feature_key_0 [simp]: "feature_key 0 = ''feature_0''"
  by (simp add: feature_key_def)

lemma feature_key_1 [simp]: "feature_key 1 = ''feature_1''"
  by (simp add: feature_key_def)


section \<open>Legacy parameter helpers (pythia/helpers.py)\<close>

text \<open>
  \<open>prep_dale_fit_params(par)\<close>, lines 44-68. \<open>type(v) == int\<close> holds of an
  \<open>int\<close> only (a \<open>bool\<close> has type \<open>bool\<close>); \<open>v in ["fixed", "greedy", "dp"]\<close>
  compares with \<open>==\<close>. The check under \<open>"min_points_per_bin"\<close> reads
  \<open>par["max_nof_bins"]\<close>, as the source does.
\<close>

definition is_int :: "pyval \<Rightarrow> bool" where
  "is_int v = (case v of VInt _ \<Rightarrow> True | _ \<Rightarrow> False)"

definition py_assert :: "bool \<Rightarrow> error + unit" where
  "py_assert b = (if b then Inr () else Inl AssertionError)"

lemma py_assert_simps [simp]: "py_assert True = Inr ()" "py_assert False = Inl AssertionError"
  by (simp_all add: py_assert_def)

definition prep_dale_fit_params :: "(string \<rightharpoonup> pyval) option \<Rightarrow> error + (string \<rightharpoonup> pyval)" where
  "prep_dale_fit_params par0 =
     (let par = (case par0 of None \<Rightarrow> Map.empty | Some p \<Rightarrow> p) in
      ebind (case par ''bin_method'' of
               Some v \<Rightarrow> ebind (py_assert (v \<in> set [VStr ''fixed'', VStr ''greedy'', VStr ''dp'']))
                           (\<lambda>_. Inr par)
             | None \<Rightarrow> Inr (par(''bin_method'' \<mapsto> VStr ''fixed''))) (\<lambda>par.
      ebind (case par ''nof_bins'' of
               Some v \<Rightarrow> ebind (py_assert (is_int v)) (\<lambda>_. Inr par)
             | None \<Rightarrow> Inr (par(''nof_bins'' \<mapsto> VInt 100))) (\<lambda>par.
      ebind (case par ''max_nof_bins'' of
               Some v \<Rightarrow> ebind (py_assert (is_int v)) (\<lambda>_. Inr par)
             | None \<Rightarrow> Inr (par(''max_nof_bins'' \<mapsto> VInt 20))) (\<lambda>par.
      ebind (case par ''min_points_per_bin'' of
               Some _ \<Rightarrow> ebind (py_getitem par ''max_nof_bins'') (\<lambda>v.
                         ebind (py_assert (is_int v)) (\<lambda>_. Inr par))
             | None \<Rightarrow> Inr (par(''min_points_per_bin'' \<mapsto> VNone))) (\<lambda>par.
      Inr par)))))"

text \<open>
  C8 (the code departs from the claim). The defaults are as the claim says, and a
  wrong \<open>"bin_method"\<close>, \<open>"nof_bins"\<close> or \<open>"max_nof_bins"\<close> is refused; but a
  \<open>"min_points_per_bin"\<close> that is not an integer is accepted: on the dict
  \<open>{"min_points_per_bin": "ten"}\<close> the call returns the dict, completed with the
  three other defaults and with the string left in place.
\<close>

theorem prep_dale_fit_params_accepts_non_int_min_points:
  "prep_dale_fit_params (Some [''min_points_per_bin'' \<mapsto> VStr ''ten'']) =
     Inr [''min_points_per_bin'' \<mapsto> VStr ''ten'', ''bin_method'' \<mapsto> VStr ''fixed'',
          ''nof_bins'' \<mapsto> VInt 100, ''max_nof_bins'' \<mapsto> VInt 20]"
  by (simp add: prep_dale_fit_params_def py_getitem_def is_int_def)


section \<open>The shared helpers of the effector package\<close>

text \<open>
  The classes under \<open>src/effector\<close> import \<open>effector.helpers\<close>,
  \<open>effector.utils\<close>, \<open>effector.binning_methods\<close> and
  \<open>effector.visualization\<close>, which are not among the sources, and call numpy,
  scipy and shap. What the claims do not depend on is a field of the record \<open>env\<close>,
  about which nothing is assumed: every theorem below holds for every \<open>env\<close>.
  A field returns \<open>Inl\<close> where the routine raises.
\<close>

datatype binning_method = BinName string | BinObject string

record dale_params =
  limits :: "real list"
  bin_effect :: "real list"
  dx :: "real list"
  bin_variance :: "real list"
  bin_estimator_variance :: "real list"
  alg_params :: "binning_method option"

record bin_est =
  est_limits :: "real list option"
  est_class_name :: string

record env =
  prep_nof_instances :: "pyobj \<Rightarrow> nat \<Rightarrow> error + (nat \<times> nat list)"
  EMPTY_SYMBOL :: real
  compute_jacobian_numerically :: "pyobj \<Rightarrow> real list list \<Rightarrow> error + real list list"
  find_limits :: "real list list \<Rightarrow> real list list \<Rightarrow> int \<Rightarrow> pyobj \<Rightarrow> binning_method
                    \<Rightarrow> error + bin_est"
  compute_ale_params :: "real list \<Rightarrow> real list \<Rightarrow> real list \<Rightarrow> error + dale_params"
  compute_accumulated_effect :: "real list \<Rightarrow> real list \<Rightarrow> npfloat list \<Rightarrow> real list
                    \<Rightarrow> error + npfloat list"
  shap_explainer :: "pyobj \<Rightarrow> real list list \<Rightarrow> error + real list list"
  UnivariateSpline :: "real list \<Rightarrow> real list \<Rightarrow> error + (real \<Rightarrow> real)"
  random_choice :: "nat \<Rightarrow> int \<Rightarrow> error + nat list"

text \<open>
  The \<open>features\<close> argument of \<open>fit\<close>: \<open>"all"\<close>, one index, or a list of
  indices (the type leaves out strings other than \<open>"all"\<close>).
\<close>

datatype features = FeatAll | FeatInt int | FeatList "int list"

text \<open>
  Modelled from the spec: \<open>effector.helpers.prep_features\<close> and
  \<open>effector.helpers.prep_centering\<close> are not among the sources; the spec (4.5)
  describes them as \<open>src/pythia/helpers.py\<close>, lines 5-21, defines the functions of
  the same names, and the definitions follow those lines.
\<close>

definition prep_features :: "features \<Rightarrow> nat \<Rightarrow> int list" where
  "prep_features feat D =
     (case feat of FeatAll \<Rightarrow> map int [0..<D] | FeatInt i \<Rightarrow> [i] | FeatList l \<Rightarrow> l)"

definition prep_centering :: "centering \<Rightarrow> error + centering" where
  "prep_centering c =
     (case c of
        CStr s \<Rightarrow> ebind (py_assert (s \<in> set [''zero_start'', ''zero_integral''])) (\<lambda>_. Inr c)
      | CBool True \<Rightarrow> Inr (CStr ''zero_integral'')
      | CBool False \<Rightarrow> Inr c)"

text \<open>
  Modelled from the spec: \<open>effector.helpers.axis_limits_from_data\<close> is not among
  the sources; the definition follows the function of that name in
  \<open>src/pythia/helpers.py\<close>, lines 34-41 (per-column minimum and maximum; numpy's
  \<open>min\<close> of an empty column raises \<open>ValueError\<close>).
\<close>

definition axis_limits_from_data :: "nat \<Rightarrow> real list list \<Rightarrow> error + pyobj" where
  "axis_limits_from_data D rows =
     (if D = 0 then Inr (PyArr2 0 [[], []])
      else if rows = [] then Inl ValueError
      else Inr (PyArr2 D [map (\<lambda>d. Min (set (map (\<lambda>r. r ! d) rows))) [0..<D],
                          map (\<lambda>d. Max (set (map (\<lambda>r. r ! d) rows))) [0..<D]]))"

text \<open>numpy: \<open>a.ndim\<close>, \<open>a[:, j]\<close> and \<open>a[idx, :]\<close>.\<close>

definition ndim :: "pyobj \<Rightarrow> error + nat" where
  "ndim a = (case a of PyArr1 _ \<Rightarrow> Inr 1 | PyArr2 _ _ \<Rightarrow> Inr 2 | _ \<Rightarrow> Inl AttributeError)"

definition np_column :: "nat \<Rightarrow> real list list \<Rightarrow> int \<Rightarrow> error + real list" where
  "np_column D rows j =
     (case py_pos D j of None \<Rightarrow> Inl IndexError | Some k \<Rightarrow> Inr (map (\<lambda>r. r ! k) rows))"

definition take_rows :: "'a list \<Rightarrow> nat list \<Rightarrow> error + 'a list" where
  "take_rows xs idx =
     (if list_all (\<lambda>i. i < length xs) idx then Inr (map (\<lambda>i. xs ! i) idx) else Inl IndexError)"

text \<open>
  \<open>a[m]\<close> and \<open>a[m, :]\<close> with a boolean array \<open>m\<close>: numpy selects the rows where
  \<open>m\<close> is true and raises \<open>IndexError\<close> when the length of \<open>m\<close> is not the
  number of rows, except that an empty \<open>m\<close> selects zero rows of any array.
\<close>

definition bool_index :: "'a list \<Rightarrow> bool list \<Rightarrow> error + 'a list" where
  "bool_index xs msk =
     (if msk = [] then Inr []
      else if length msk = length xs then Inr (map fst (filter snd (zip xs msk)))
      else Inl IndexError)"

text \<open>\<open>np.mean\<close> of a vector, and the call of a model.\<close>

definition np_mean :: "real list \<Rightarrow> npfloat" where
  "np_mean ys = np_div (sum_list ys) (real (length ys))"

definition py_call :: "pyobj \<Rightarrow> real list list \<Rightarrow> error + real list" where
  "py_call f x = (case f of PyFun g \<Rightarrow> Inr (g x) | _ \<Rightarrow> Inl TypeError)"


section \<open>GlobalEffect (effector/global_effect.py)\<close>

text \<open>
  The attributes \<open>__init__\<close> sets. What the constructor stores as it was passed
  keeps the type \<open>pyobj\<close>; \<open>dimD\<close> is \<open>self.dim\<close>. A \<open>method_args\<close> entry is
  the dict \<open>{"centering": centering}\<close>.
\<close>

record 'fe global_effect =
  method_name :: pyobj
  nof_instances :: nat
  indices :: "nat list"
  data :: "real list list"
  dimD :: nat
  model :: pyobj
  avg_output :: pyobj
  axis_limits :: pyobj
  feature_names :: pyobj
  target_name :: pyobj
  is_fitted :: "bool list"
  method_args :: "string \<rightharpoonup> (string \<rightharpoonup> centering)"
  feature_effect :: "string \<rightharpoonup> 'fe"

text \<open>
  \<open>GlobalEffect.__init__(self, method_name, data, model, nof_instances="all",
  axis_limits=None, avg_output=None, feature_names=None, target_name=None)\<close>,
  lines 11-90.
\<close>

definition GlobalEffect_init ::
  "env \<Rightarrow> pyobj \<Rightarrow> pyobj \<Rightarrow> pyobj \<Rightarrow> pyobj \<Rightarrow> pyobj \<Rightarrow> pyobj \<Rightarrow> pyobj \<Rightarrow> pyobj
     \<Rightarrow> error + 'fe global_effect" where
  "GlobalEffect_init E method_name0 data0 model0 nof_instances0 axis_limits0 avg_output0
       feature_names0 target_name0 =
     ebind (ndim data0) (\<lambda>nd.
     ebind (py_assert (nd = 2)) (\<lambda>_.
     case data0 of
       PyArr2 D rows \<Rightarrow>
         ebind (prep_nof_instances E nof_instances0 (length rows)) (\<lambda>(n, idx).
         ebind (take_rows rows idx) (\<lambda>rows1.
         ebind (if avg_output0 = PyNone
                then ebind (py_call model0 rows1) (\<lambda>ys. Inr (PyFloat (np_mean ys)))
                else Inr avg_output0) (\<lambda>avg.
         ebind (if axis_limits0 = PyNone then axis_limits_from_data D rows1
                else Inr axis_limits0) (\<lambda>lims.
         Inr \<lparr>method_name = method_name0, nof_instances = n, indices = idx, data = rows1,
              dimD = D, model = model0, avg_output = avg, axis_limits = lims,
              feature_names = feature_names0, target_name = target_name0,
              is_fitted = replicate D False, method_args = Map.empty,
              feature_effect = Map.empty\<rparr>))))
     | _ \<Rightarrow> Inl AttributeError))"

text \<open>\<open>GlobalEffect.refit(self, feature, centering)\<close>, lines 112-121.\<close>

definition refit :: "('fe, 'z) global_effect_scheme \<Rightarrow> int \<Rightarrow> centering \<Rightarrow> error + bool" where
  "refit st feature c =
     ebind (py_index (is_fitted st) feature) (\<lambda>fitted.
       if \<not> fitted then Inr True
       else if c \<noteq> CBool False then
         ebind (py_getitem (method_args st) (feature_key feature)) (\<lambda>args.
         ebind (py_getitem args ''centering'') (\<lambda>recorded.
           if recorded \<noteq> c then Inr True else Inr False))
       else Inr False)"

text \<open>
  \<open>GlobalEffect.eval\<close>, lines 123-166: the body is a docstring and
  \<open>raise NotImplementedError\<close>.
\<close>

datatype eval_result = Mean "npfloat list" | Triple "npfloat list" "npfloat list" "npfloat list"

definition GlobalEffect_eval ::
  "('fe, 'z) global_effect_scheme \<Rightarrow> int \<Rightarrow> real list \<Rightarrow> bool \<Rightarrow> centering \<Rightarrow> error + eval_result" where
  "GlobalEffect_eval st feature xs heterogeneity c = Inl NotImplementedError"

text \<open>\<open>self.axis_limits[i, feature]\<close>.\<close>

definition axis_limit :: "('fe, 'z) global_effect_scheme \<Rightarrow> int \<Rightarrow> int \<Rightarrow> error + real" where
  "axis_limit st i feature =
     (case axis_limits st of
        PyArr2 D rows \<Rightarrow>
          ebind (py_index rows i) (\<lambda>row.
            case py_pos D feature of None \<Rightarrow> Inl IndexError | Some k \<Rightarrow> Inr (row ! k))
      | PyArr1 _ \<Rightarrow> Inl IndexError
      | _ \<Rightarrow> Inl TypeError)"


section \<open>RHALE (effector/global_effect_rhale.py)\<close>

text \<open>
  \<open>RHALE\<close> adds \<open>model_jac\<close> and \<open>data_effect\<close> to the attributes of
  \<open>GlobalEffect\<close>; both are \<open>None\<close> or what the annotation says.
\<close>

record rhale = "dale_params global_effect" +
  model_jac :: "(real list list \<Rightarrow> real list list) option"
  data_effect :: "real list list option"

text \<open>
  \<open>RHALE.__init__(self, data, model, model_jac=None, axis_limits=None,
  data_effect=None, avg_output=None, feature_names=None, target_name=None)\<close>,
  lines 77-84. The call
  \<open>super(RHALE, self).__init__(data, model, axis_limits, avg_output, feature_names, target_name)\<close>
  is positional: the six values bind to the first six parameters of
  \<open>GlobalEffect.__init__\<close> (\<open>method_name, data, model, nof_instances,
  axis_limits, avg_output\<close>), and \<open>feature_names\<close> and \<open>target_name\<close> keep
  their default \<open>None\<close>.
\<close>

definition RHALE_init ::
  "env \<Rightarrow> pyobj \<Rightarrow> pyobj \<Rightarrow> (real list list \<Rightarrow> real list list) option \<Rightarrow> pyobj
     \<Rightarrow> real list list option \<Rightarrow> pyobj \<Rightarrow> pyobj \<Rightarrow> pyobj \<Rightarrow> error + rhale" where
  "RHALE_init E data0 model0 model_jac0 axis_limits0 data_effect0 avg_output0 feature_names0
       target_name0 =
     ebind (GlobalEffect_init E data0 model0 axis_limits0 avg_output0 feature_names0
              target_name0 PyNone PyNone)
       (\<lambda>g. Inr (global_effect.extend g
                   (rhale.fields model_jac0 data_effect0)))"

text \<open>\<open>RHALE.compile\<close>, lines 86-92.\<close>

definition compile :: "env \<Rightarrow> rhale \<Rightarrow> (error + unit) \<times> rhale" where
  "compile E st =
     (case data_effect st of
        Some _ \<Rightarrow> (Inr (), st)
      | None \<Rightarrow>
          (case model_jac st of
             Some jac \<Rightarrow> (Inr (), st\<lparr>data_effect := Some (jac (data st))\<rparr>)
           | None \<Rightarrow>
               (case compute_jacobian_numerically E (model st) (data st) of
                  Inl e \<Rightarrow> (Inl e, st)
                | Inr j \<Rightarrow> (Inr (), st\<lparr>data_effect := Some j\<rparr>))))"

text \<open>
  \<open>RHALE._fit_feature\<close>, lines 94-129, in three parts. Lines 99 and 100 each
  replace \<open>self.data\<close> by its rows on the right side of one limit.
\<close>

definition drop_outside :: "rhale \<Rightarrow> int \<Rightarrow> bool \<Rightarrow> error + real list list" where
  "drop_outside st feature lower =
     ebind (np_column (dimD st) (data st) feature) (\<lambda>col.
     ebind (axis_limit st (if lower then 0 else 1) feature) (\<lambda>lim.
     bool_index (data st) (map (\<lambda>x. if lower then lim \<le> x else x \<le> lim) col)))"

text \<open>
  Lines 101-129: the index \<open>ind\<close> is computed from the \<open>self.data\<close> that lines
  99-100 left and applied to \<open>self.data\<close> and to \<open>self.data_effect\<close>; then the
  bins and their statistics.
\<close>

definition fit_feature_bins :: "env \<Rightarrow> rhale \<Rightarrow> int \<Rightarrow> binning_method \<Rightarrow> error + dale_params" where
  "fit_feature_bins E st feature binning =
     ebind (np_column (dimD st) (data st) feature) (\<lambda>col.
     ebind (axis_limit st 0 feature) (\<lambda>lo.
     ebind (axis_limit st 1 feature) (\<lambda>hi.
     let ind = map (\<lambda>x. lo \<le> x \<and> x \<le> hi) col in
     ebind (bool_index (data st) ind) (\<lambda>data1.
     ebind (case data_effect st of None \<Rightarrow> Inl TypeError | Some de \<Rightarrow> bool_index de ind)
       (\<lambda>data_effect1.
     ebind (find_limits E data1 data_effect1 feature (axis_limits st) binning) (\<lambda>est.
     ebind (case est_limits est of None \<Rightarrow> Inl AssertionError | Some l \<Rightarrow> Inr l) (\<lambda>lims.
     ebind (np_column (dimD st) data1 feature) (\<lambda>xs.
     ebind (np_column (dimD st) data_effect1 feature) (\<lambda>dxs.
     ebind (compute_ale_params E xs dxs lims) (\<lambda>params.
     Inr (params\<lparr>alg_params := Some binning\<rparr>)))))))))))"

definition RHALE_fit_feature ::
  "env \<Rightarrow> rhale \<Rightarrow> int \<Rightarrow> binning_method \<Rightarrow> (error + dale_params) \<times> rhale" where
  "RHALE_fit_feature E st feature binning =
     (case (if data_effect st = None then compile E st else (Inr (), st)) of
        (Inl e, st1) \<Rightarrow> (Inl e, st1)
      | (Inr _, st1) \<Rightarrow>
          (case drop_outside st1 feature True of
             Inl e \<Rightarrow> (Inl e, st1)
           | Inr rows2 \<Rightarrow>
               (case drop_outside (st1\<lparr>data := rows2\<rparr>) feature False of
                  Inl e \<Rightarrow> (Inl e, st1\<lparr>data := rows2\<rparr>)
                | Inr rows3 \<Rightarrow>
                    (fit_feature_bins E (st1\<lparr>data := rows3\<rparr>) feature binning,
                     st1\<lparr>data := rows3\<rparr>))))"

text \<open>
  \<open>RHALE.fit\<close>, lines 131-166. Neither \<open>RHALE\<close> nor \<open>GlobalEffect\<close> defines
  an attribute \<open>norm_const\<close> or a method \<open>_compute_norm_const\<close>, so line 162,
  \<open>self.norm_const[s] = self._compute_norm_const(s, method=centering)\<close>, raises
  \<open>AttributeError\<close> when it is reached.
\<close>

fun RHALE_fit_loop ::
  "env \<Rightarrow> rhale \<Rightarrow> int list \<Rightarrow> binning_method \<Rightarrow> centering \<Rightarrow> (error + unit) \<times> rhale" where
  "RHALE_fit_loop E st [] binning c = (Inr (), st)"
| "RHALE_fit_loop E st (s # ss) binning c =
     (case RHALE_fit_feature E st s binning of
        (Inl e, st1) \<Rightarrow> (Inl e, st1)
      | (Inr params, st1) \<Rightarrow>
          (let st2 = st1\<lparr>feature_effect := (feature_effect st1)(feature_key s \<mapsto> params)\<rparr> in
           if c \<noteq> CBool False then (Inl AttributeError, st2)
           else
             (case py_setitem (is_fitted st2) s True of
                Inl e \<Rightarrow> (Inl e, st2)
              | Inr fitted \<Rightarrow>
                  RHALE_fit_loop E
                    (st2\<lparr>is_fitted := fitted,
                         method_args := (method_args st2)(feature_key s \<mapsto> [''centering'' \<mapsto> c])\<rparr>)
                    ss binning c)))"

definition RHALE_fit ::
  "env \<Rightarrow> rhale \<Rightarrow> features \<Rightarrow> binning_method \<Rightarrow> centering \<Rightarrow> (error + unit) \<times> rhale" where
  "RHALE_fit E st feats binning centering0 =
     (case prep_centering centering0 of
        Inl e \<Rightarrow> (Inl e, st)
      | Inr c \<Rightarrow> RHALE_fit_loop E st (prep_features feats (dimD st)) binning c)"

text \<open>
  \<open>RHALE._eval_unnorm\<close>, lines 168-189; \<open>np.sqrt\<close> of a negative number is
  \<open>nan\<close>.
\<close>

definition np_sqrt :: "real \<Rightarrow> npfloat" where
  "np_sqrt x = (if x < 0 then NonFinite else Fin (sqrt x))"

definition RHALE_eval_unnorm :: "env \<Rightarrow> rhale \<Rightarrow> int \<Rightarrow> real list \<Rightarrow> bool \<Rightarrow> error + eval_result" where
  "RHALE_eval_unnorm E st feature x heterogeneity =
     ebind (py_getitem (feature_effect st) (feature_key feature)) (\<lambda>params.
     ebind (compute_accumulated_effect E x (limits params) (map Fin (bin_effect params))
              (dx params)) (\<lambda>y.
     if heterogeneity then
       ebind (compute_accumulated_effect E x (limits params)
                (map np_sqrt (bin_variance params)) (dx params)) (\<lambda>std.
       ebind (compute_accumulated_effect E x (limits params)
                (map np_sqrt (bin_estimator_variance params)) (dx params)) (\<lambda>std_err.
       Inr (Triple y std std_err)))
     else Inr (Mean y)))"

text \<open>
  \<open>RHALE\<close> defines \<open>__init__\<close>, \<open>compile\<close>, \<open>_fit_feature\<close>, \<open>fit\<close>,
  \<open>_eval_unnorm\<close> and \<open>plot\<close>, and no \<open>eval\<close>: \<open>RHALE.eval\<close> is the method it
  inherits.
\<close>

definition RHALE_eval :: "rhale \<Rightarrow> int \<Rightarrow> real list \<Rightarrow> bool \<Rightarrow> centering \<Rightarrow> error + eval_result" where
  "RHALE_eval st feature xs heterogeneity c = GlobalEffect_eval st feature xs heterogeneity c"


section \<open>SHAPDependence (effector/global_effect_shap.py)\<close>

text \<open>The dict \<open>_fit_feature\<close> returns, lines 133-139.\<close>

record shap_effect =
  spline_mean :: "real \<Rightarrow> real"
  spline_std :: "real \<Rightarrow> real"
  xx :: "real list"
  yy :: "real list"
  norm_const :: npfloat

type_synonym shap = "shap_effect global_effect"

text \<open>
  \<open>SHAPDependence.__init__(self, data, model, axis_limits=None, avg_output=None,
  feature_names=None, target_name=None)\<close>, lines 83-85, with the same positional
  call of \<open>GlobalEffect.__init__\<close> as \<open>RHALE\<close>.
\<close>

definition SHAPDependence_init ::
  "env \<Rightarrow> pyobj \<Rightarrow> pyobj \<Rightarrow> pyobj \<Rightarrow> pyobj \<Rightarrow> pyobj \<Rightarrow> pyobj \<Rightarrow> error + shap" where
  "SHAPDependence_init E data0 model0 axis_limits0 avg_output0 feature_names0 target_name0 =
     GlobalEffect_init E data0 model0 axis_limits0 avg_output0 feature_names0 target_name0
       PyNone PyNone"

text \<open>
  numpy: \<open>np.argsort\<close> (the order of equal keys is the stable one here; numpy's
  default sort leaves it open, and the sorted keys do not depend on it),
  \<open>np.linspace(start, stop, num)\<close> and \<open>np.trapz(y, x)\<close>.
\<close>

definition argsort :: "real list \<Rightarrow> nat list" where
  "argsort xs = sort_key (\<lambda>i. xs ! i) [0..<length xs]"

definition linspace_points :: "real \<Rightarrow> real \<Rightarrow> nat \<Rightarrow> real list" where
  "linspace_points a b n =
     (if n = 1 then [a] else map (\<lambda>i. a + real i * ((b - a) / real (n - 1))) [0..<n])"

definition np_linspace :: "real \<Rightarrow> real \<Rightarrow> pyobj \<Rightarrow> error + real list" where
  "np_linspace a b num =
     (case num of
        PyInt n \<Rightarrow> if n < 0 then Inl ValueError else Inr (linspace_points a b (nat n))
      | PyBool t \<Rightarrow> Inr (linspace_points a b (if t then 1 else 0))
      | _ \<Rightarrow> Inl TypeError)"

fun np_trapz :: "real list \<Rightarrow> real list \<Rightarrow> real" where
  "np_trapz (y0 # y1 # ys) (x0 # x1 # xs) =
     (x1 - x0) * (y1 + y0) / 2 + np_trapz (y1 # ys) (x1 # xs)"
| "np_trapz ys xs = 0"

text \<open>
  \<open>SHAPDependence._fit_feature\<close>, lines 87-140. The norm constant, lines 123-131,
  is a definition of its own.
\<close>

definition shap_norm_const ::
  "env \<Rightarrow> (real \<Rightarrow> real) \<Rightarrow> real list \<Rightarrow> centering \<Rightarrow> pyobj \<Rightarrow> error + npfloat" where
  "shap_norm_const E mean_spline xs c points_used_for_centering =
     (if c = CStr ''zero_integral'' then
        ebind (py_index xs 0) (\<lambda>x_first.
        ebind (py_index xs (- 1)) (\<lambda>x_last.
        ebind (np_linspace x_first x_last points_used_for_centering) (\<lambda>x_norm.
        Inr (np_div (np_trapz (map mean_spline x_norm) x_norm) (x_last - x_first)))))
      else if c = CStr ''zero_start'' then
        ebind (py_index xs 0) (\<lambda>x_first. Inr (Fin (mean_spline x_first)))
      else Inr (Fin (EMPTY_SYMBOL E)))"

text \<open>Lines 95-109: the rows kept, and the pairs \<open>(xx, yy)\<close> before sorting.\<close>

definition shap_points ::
  "env \<Rightarrow> shap \<Rightarrow> int \<Rightarrow> pyobj \<Rightarrow> pyobj \<Rightarrow> error + (real list \<times> real list)" where
  "shap_points E st feature points_for_fitting_spline points_used_for_centering =
     ebind (np_column (dimD st) (data st) feature) (\<lambda>col.
     ebind (axis_limit st 0 feature) (\<lambda>lo.
     ebind (bool_index (data st) (map (\<lambda>x. lo \<le> x) col)) (\<lambda>data1.
     ebind (prep_nof_instances E points_for_fitting_spline (length data1)) (\<lambda>(_, ind_shap).
     ebind (prep_nof_instances E points_used_for_centering (length data1)) (\<lambda>(_, ind_cent).
     ebind (take_rows data1 ind_shap) (\<lambda>data2.
     ebind (shap_explainer E (model st) data2) (\<lambda>vals.
     ebind (np_column (dimD st) vals feature) (\<lambda>ys.
     ebind (np_column (dimD st) data2 feature) (\<lambda>xs.
     Inr (xs, ys))))))))))"

definition SHAP_fit_feature ::
  "env \<Rightarrow> shap \<Rightarrow> int \<Rightarrow> centering \<Rightarrow> pyobj \<Rightarrow> pyobj \<Rightarrow> error + shap_effect" where
  "SHAP_fit_feature E st feature c points_for_fitting_spline points_used_for_centering =
     ebind (shap_points E st feature points_for_fitting_spline points_used_for_centering)
       (\<lambda>(xs0, ys0).
     let idx = argsort xs0 in
     ebind (take_rows xs0 idx) (\<lambda>xs.
     ebind (take_rows ys0 idx) (\<lambda>ys.
     ebind (UnivariateSpline E xs ys) (\<lambda>mean_spline.
     ebind (UnivariateSpline E xs (map (\<lambda>(y, x). \<bar>y - mean_spline x\<bar>) (zip ys xs)))
       (\<lambda>std_spline.
     ebind (shap_norm_const E mean_spline xs c points_used_for_centering) (\<lambda>nc.
     Inr \<lparr>spline_mean = mean_spline, spline_std = std_spline, xx = xs, yy = ys,
          norm_const = nc\<rparr>))))))"

text \<open>\<open>SHAPDependence.fit\<close>, lines 142-194.\<close>

fun SHAP_fit_loop ::
  "env \<Rightarrow> shap \<Rightarrow> int list \<Rightarrow> centering \<Rightarrow> pyobj \<Rightarrow> pyobj \<Rightarrow> (error + unit) \<times> shap" where
  "SHAP_fit_loop E st [] c pfs pfc = (Inr (), st)"
| "SHAP_fit_loop E st (s # ss) c pfs pfc =
     (case SHAP_fit_feature E st s c pfs pfc of
        Inl e \<Rightarrow> (Inl e, st)
      | Inr eff \<Rightarrow>
          (let st1 = st\<lparr>feature_effect := (feature_effect st)(feature_key s \<mapsto> eff)\<rparr> in
           case py_setitem (is_fitted st1) s True of
             Inl e \<Rightarrow> (Inl e, st1)
           | Inr fitted \<Rightarrow> SHAP_fit_loop E (st1\<lparr>is_fitted := fitted\<rparr>) ss c pfs pfc))"

definition SHAP_fit ::
  "env \<Rightarrow> shap \<Rightarrow> features \<Rightarrow> centering \<Rightarrow> pyobj \<Rightarrow> pyobj \<Rightarrow> (error + unit) \<times> shap" where
  "SHAP_fit E st feats centering0 points_for_fitting_spline points_for_centering =
     (case prep_centering centering0 of
        Inl e \<Rightarrow> (Inl e, st)
      | Inr c \<Rightarrow>
          SHAP_fit_loop E st (prep_features feats (dimD st)) c points_for_fitting_spline
            points_for_centering)"

text \<open>
  \<open>SHAPDependence.eval\<close>, lines 196-245. The condition of lines 225-229 is
  \<open>not A or B and C\<close>, which Python reads as \<open>(not A) or (B and C)\<close>, evaluating
  \<open>B\<close> only when \<open>A\<close> holds and \<open>C\<close> only when \<open>B\<close> holds. It takes the
  centering that \<open>prep_centering\<close> returned.
\<close>

definition eval_fit_condition :: "env \<Rightarrow> shap \<Rightarrow> int \<Rightarrow> centering \<Rightarrow> error + bool" where
  "eval_fit_condition E st feature c =
     ebind (py_index (is_fitted st) feature) (\<lambda>fitted.
       if \<not> fitted then Inr True
       else
         ebind (py_getitem (feature_effect st) (feature_key feature)) (\<lambda>eff.
           if norm_const eff = Fin (EMPTY_SYMBOL E) then Inr (c \<noteq> CBool False)
           else Inr False))"

text \<open>Lines 232-245: the evaluation from the stored splines.\<close>

definition eval_stored :: "shap \<Rightarrow> int \<Rightarrow> real list \<Rightarrow> bool \<Rightarrow> centering \<Rightarrow> error + eval_result" where
  "eval_stored st feature xs uncertainty c =
     ebind (axis_limit st 0 feature) (\<lambda>lo.
     ebind (axis_limit st 1 feature) (\<lambda>hi.
     ebind (py_assert (lo < hi)) (\<lambda>_.
     ebind (py_getitem (feature_effect st) (feature_key feature)) (\<lambda>eff.
     let ys0 = map (\<lambda>x. Fin (spline_mean eff x)) xs;
         ys = (if c \<noteq> CBool False then map (\<lambda>y. np_sub y (norm_const eff)) ys0 else ys0)
     in if uncertainty
        then Inr (Triple ys (map (\<lambda>x. Fin (spline_std eff x)) xs) (map (\<lambda>x. Fin 0) xs))
        else Inr (Mean ys)))))"

definition SHAP_eval ::
  "env \<Rightarrow> shap \<Rightarrow> int \<Rightarrow> real list \<Rightarrow> bool \<Rightarrow> centering \<Rightarrow> (error + eval_result) \<times> shap" where
  "SHAP_eval E st feature xs uncertainty centering0 =
     (case prep_centering centering0 of
        Inl e \<Rightarrow> (Inl e, st)
      | Inr c \<Rightarrow>
          (case eval_fit_condition E st feature c of
             Inl e \<Rightarrow> (Inl e, st)
           | Inr fit_first \<Rightarrow>
               if fit_first then
                 (case SHAP_fit E st (FeatInt feature) c (PyInt 100) (PyInt 100) of
                    (Inl e, st1) \<Rightarrow> (Inl e, st1)
                  | (Inr _, st1) \<Rightarrow> (eval_stored st1 feature xs uncertainty c, st1))
               else (eval_stored st feature xs uncertainty c, st)))"


text \<open>
  Modelled from the spec: \<open>effector.helpers.prep_confidence_interval\<close> is not
  among the sources. The spec (4.5) says it maps \<open>True\<close> to \<open>"std"\<close> and
  validates a string against \<open>"std"\<close>, \<open>"std_err"\<close> and, for SHAP,
  \<open>"shap_values"\<close>, as \<open>prep_uncertainty\<close> of \<open>src/pythia/helpers.py\<close>, lines
  24-31, does for its two strings.
\<close>

definition prep_confidence_interval :: "centering \<Rightarrow> error + centering" where
  "prep_confidence_interval ci =
     (case ci of
        CStr s \<Rightarrow> ebind (py_assert (s \<in> set [''std'', ''std_err'', ''shap_values''])) (\<lambda>_. Inr ci)
      | CBool True \<Rightarrow> Inr (CStr ''std'')
      | CBool False \<Rightarrow> Inr ci)"

text \<open>
  \<open>SHAPDependence.plot\<close>, lines 247-332. The call of \<open>vis.plot_shap\<close> is the
  last statement: the method's value here is the arguments of that call, so that
  \<open>Inl\<close> is an exception raised before the rendering starts. (\<open>scale_x\<close>,
  \<open>scale_y\<close> and \<open>y_limits\<close> are handed on unread and left out.)
\<close>

record plot_shap_call =
  plot_x :: "real list"
  plot_y :: eval_result
  plot_xx :: "real list option"
  plot_yy :: "real list option"
  plot_y_std :: "real list option"
  plot_feature :: int
  plot_confidence_interval :: centering
  plot_avg_output :: pyobj

text \<open>\<open>len(v)\<close> and \<open>n < k\<close> for the values that reach line 311.\<close>

definition py_len :: "'a list option \<Rightarrow> error + nat" where
  "py_len v = (case v of None \<Rightarrow> Inl TypeError | Some l \<Rightarrow> Inr (length l))"

definition py_less_len :: "pyobj \<Rightarrow> nat \<Rightarrow> error + bool" where
  "py_less_len v k =
     (case v of
        PyInt n \<Rightarrow> Inr (n < int k)
      | PyBool t \<Rightarrow> Inr ((if t then 1 else 0) < k)
      | PyFloat (Fin r) \<Rightarrow> Inr (r < real k)
      | PyFloat NonFinite \<Rightarrow> Inr False
      | _ \<Rightarrow> Inl TypeError)"

definition py_take :: "real list option \<Rightarrow> nat list \<Rightarrow> error + real list option" where
  "py_take v idx = (case v of None \<Rightarrow> Inl TypeError | Some l \<Rightarrow> ebind (take_rows l idx) (\<lambda>r. Inr (Some r)))"

text \<open>Lines 311-314.\<close>

definition select_shap_values ::
  "env \<Rightarrow> real list option \<Rightarrow> real list option \<Rightarrow> pyobj
     \<Rightarrow> error + (real list option \<times> real list option)" where
  "select_shap_values E xs ys nof_shap_values =
     (if nof_shap_values = PyStr ''all'' then Inr (xs, ys)
      else
        ebind (py_len xs) (\<lambda>k.
        ebind (py_less_len nof_shap_values k) (\<lambda>fewer.
          if fewer then
            ebind (case nof_shap_values of PyInt n \<Rightarrow> random_choice E k n
                   | PyBool t \<Rightarrow> random_choice E k (if t then 1 else 0)
                   | _ \<Rightarrow> Inl TypeError) (\<lambda>idx.
            ebind (py_take xs idx) (\<lambda>xs1.
            ebind (py_take ys idx) (\<lambda>ys1. Inr (xs1, ys1))))
          else Inr (xs, ys))))"

text \<open>Lines 292-332.\<close>

definition plot_after_eval ::
  "env \<Rightarrow> shap \<Rightarrow> int \<Rightarrow> centering \<Rightarrow> real list \<Rightarrow> eval_result \<Rightarrow> pyobj \<Rightarrow> bool
     \<Rightarrow> error + plot_shap_call" where
  "plot_after_eval E st feature ci x y nof_shap_values show_avg_output =
     ebind (if ci = CStr ''std''
            then ebind (py_getitem (feature_effect st) (feature_key feature))
                   (\<lambda>eff. Inr (Some (map (spline_std eff) x)))
            else Inr None) (\<lambda>y_std.
     ebind (if ci = CStr ''shap_values''
            then ebind (py_getitem (feature_effect st) (feature_key feature))
                   (\<lambda>eff. Inr (Some (yy eff)))
            else Inr None) (\<lambda>ys.
     ebind (if ci = CStr ''shap_values''
            then ebind (py_getitem (feature_effect st) (feature_key feature))
                   (\<lambda>eff. Inr (Some (xx eff)))
            else Inr None) (\<lambda>xs.
     ebind (select_shap_values E xs ys nof_shap_values) (\<lambda>(xs1, ys1).
     Inr \<lparr>plot_x = x, plot_y = y, plot_xx = xs1, plot_yy = ys1, plot_y_std = y_std,
          plot_feature = feature, plot_confidence_interval = ci,
          plot_avg_output = (if \<not> show_avg_output then PyNone else avg_output st)\<rparr>))))"

definition SHAP_plot ::
  "env \<Rightarrow> shap \<Rightarrow> int \<Rightarrow> centering \<Rightarrow> centering \<Rightarrow> pyobj \<Rightarrow> pyobj \<Rightarrow> bool
     \<Rightarrow> (error + plot_shap_call) \<times> shap" where
  "SHAP_plot E st feature confidence_interval0 centering0 nof_axis_points nof_shap_values
       show_avg_output =
     (case ebind (prep_confidence_interval confidence_interval0) (\<lambda>ci.
           ebind (axis_limit st 0 feature) (\<lambda>lo.
           ebind (axis_limit st 1 feature) (\<lambda>hi.
           ebind (np_linspace lo hi nof_axis_points) (\<lambda>x. Inr (ci, x))))) of
        Inl e \<Rightarrow> (Inl e, st)
      | Inr (ci, x) \<Rightarrow>
          (case SHAP_eval E st feature x False centering0 of
             (Inl e, st1) \<Rightarrow> (Inl e, st1)
           | (Inr y, st1) \<Rightarrow>
               (plot_after_eval E st1 feature ci x y nof_shap_values show_avg_output, st1)))"


section \<open>Legacy ALE (feature_effect/ale.py)\<close>

text \<open>
  \<open>feature_effect.utils\<close> is not among the sources: its routines are the fields of
  \<open>legacy_env\<close>, about which nothing is assumed. A parameter record is a dict from
  names to arrays, numbers and strings.
\<close>

datatype ale_value = AArr "real list" | ANum real | AStr string

record legacy_env =
  create_fix_size_bins :: "real list \<Rightarrow> pyval \<Rightarrow> error + real list"
  compute_data_effect :: "real list list \<Rightarrow> pyobj \<Rightarrow> real list \<Rightarrow> int \<Rightarrow> error + real list"
  compute_fe_parameters :: "real list \<Rightarrow> real list \<Rightarrow> real list \<Rightarrow> pyval
                              \<Rightarrow> error + (string \<rightharpoonup> ale_value)"
  accumulated_effect :: "real list \<Rightarrow> ale_value \<Rightarrow> ale_value \<Rightarrow> ale_value \<Rightarrow> bool
                              \<Rightarrow> error + real list"

text \<open>\<open>compute_ale_parameters(data, model, feature, alg_params)\<close>, lines 6-33.\<close>

definition compute_ale_parameters ::
  "legacy_env \<Rightarrow> nat \<Rightarrow> real list list \<Rightarrow> pyobj \<Rightarrow> int \<Rightarrow> (string \<rightharpoonup> pyval)
     \<Rightarrow> error + (string \<rightharpoonup> ale_value)" where
  "compute_ale_parameters L D rows model0 feature alg =
     (let K = (case alg ''nof_bins'' of Some v \<Rightarrow> v | None \<Rightarrow> VInt 30);
          min_points_per_bin = (case alg ''min_points_per_bin'' of Some v \<Rightarrow> v | None \<Rightarrow> VInt 10)
      in
      ebind (np_column D rows feature) (\<lambda>col.
      ebind (create_fix_size_bins L col K) (\<lambda>lims.
      ebind (compute_data_effect L rows model0 lims feature) (\<lambda>eff.
      ebind (compute_fe_parameters L col eff lims min_points_per_bin) (\<lambda>params.
      Inr (params(''method'' \<mapsto> AStr ''fixed-size'')))))))"

text \<open>
  The attributes of an \<open>ALE\<close> object, lines 74-80; \<open>ale_params\<close> is \<open>None\<close>
  here until \<open>fit\<close> assigns the attribute. (The fields carry the prefix
  \<open>ale_\<close> where the name is a field of \<open>GlobalEffect\<close> too.)
\<close>

type_synonym ale_function = "real list \<Rightarrow> error + (real list \<times> real list)"

record ale =
  ale_D :: nat
  ale_data :: "real list list"
  ale_model :: pyobj
  ale_data_effect :: "real list list option"
  ale_feature_effect :: "(string \<rightharpoonup> ale_function) option"
  parameters :: "(string \<rightharpoonup> (string \<rightharpoonup> ale_value)) option"
  ale_params :: "(string \<rightharpoonup> (string \<rightharpoonup> ale_value)) option"

text \<open>\<open>ALE._ale_func(params)\<close>, lines 82-120: the closure over \<open>params\<close>.\<close>

definition ale_func :: "legacy_env \<Rightarrow> (string \<rightharpoonup> ale_value) \<Rightarrow> ale_function" where
  "ale_func L params x =
     ebind (py_getitem params ''limits'') (\<lambda>lims.
     ebind (py_getitem params ''bin_effect'') (\<lambda>eff.
     ebind (py_getitem params ''dx'') (\<lambda>d.
     ebind (accumulated_effect L x lims eff d False) (\<lambda>y.
     ebind (py_getitem params ''z'') (\<lambda>z.
     ebind (case z of ANum r \<Rightarrow> Inr (map (\<lambda>v. v - r) y) | _ \<Rightarrow> Inl TypeError) (\<lambda>y1.
     ebind (py_getitem params ''bin_estimator_variance'') (\<lambda>ev.
     ebind (accumulated_effect L x lims ev d True) (\<lambda>var.
     Inr (y1, var)))))))))"

text \<open>
  \<open>ALE.fit(self, features="all", alg_params={})\<close>, lines 126-143: the loop fills
  the two local dicts \<open>funcs\<close> and \<open>ale_params\<close>, and the last two statements
  assign them to the object. An exception leaves the object as it was.
\<close>

fun ALE_fit_loop ::
  "legacy_env \<Rightarrow> ale \<Rightarrow> int list \<Rightarrow> (string \<rightharpoonup> pyval)
     \<Rightarrow> (string \<rightharpoonup> ale_function) \<Rightarrow> (string \<rightharpoonup> (string \<rightharpoonup> ale_value))
     \<Rightarrow> error + ((string \<rightharpoonup> ale_function) \<times> (string \<rightharpoonup> (string \<rightharpoonup> ale_value)))" where
  "ALE_fit_loop L st [] alg funcs params = Inr (funcs, params)"
| "ALE_fit_loop L st (s # ss) alg funcs params =
     ebind (compute_ale_parameters L (ale_D st) (ale_data st) (ale_model st) s alg) (\<lambda>p.
     ALE_fit_loop L st ss alg (funcs(feature_key s \<mapsto> ale_func L p))
       (params(feature_key s \<mapsto> p)))"

definition ALE_fit :: "legacy_env \<Rightarrow> ale \<Rightarrow> features \<Rightarrow> (string \<rightharpoonup> pyval) \<Rightarrow> error + ale" where
  "ALE_fit L st feats alg =
     ebind (case feats of
              FeatAll \<Rightarrow> Inr (map int [0..<ale_D st])
            | FeatList l \<Rightarrow> Inr l
            | FeatInt _ \<Rightarrow> Inl AssertionError) (\<lambda>fs.
     ebind (ALE_fit_loop L st fs alg Map.empty Map.empty) (\<lambda>(funcs, params).
     Inr (st\<lparr>ale_feature_effect := Some funcs, ale_params := Some params\<rparr>)))"


section \<open>Example objects\<close>

text \<open>
  A concrete environment and concrete objects, on which the definitions are
  evaluated: every row is used, the Jacobian is constantly one, one bin \<open>[0, 1]\<close>,
  the SHAP values of a row are the row, and every spline is the identity.
\<close>

definition env_example :: env where
  "env_example =
     \<lparr>prep_nof_instances = (\<lambda>n N. Inr (N, [0..<N])),
      EMPTY_SYMBOL = 10000000000,
      compute_jacobian_numerically = (\<lambda>f rows. Inr (map (map (\<lambda>x. 1)) rows)),
      find_limits = (\<lambda>rows eff feature lims b.
         Inr \<lparr>est_limits = Some [0, 1], est_class_name = ''Greedy''\<rparr>),
      compute_ale_params = (\<lambda>xs dxs lims.
         Inr \<lparr>limits = lims, bin_effect = [1], dx = [1], bin_variance = [0],
              bin_estimator_variance = [0], alg_params = None\<rparr>),
      compute_accumulated_effect = (\<lambda>x lims eff d. Inr (map Fin x)),
      shap_explainer = (\<lambda>f rows. Inr rows),
      UnivariateSpline = (\<lambda>xs ys. Inr (\<lambda>x. x)),
      random_choice = (\<lambda>n k. Inr [0..<nat k])\<rparr>"

text \<open>
  Two RHALE objects with one feature and the axis limits \<open>[0, 1]\<close>: the rows of
  \<open>rhale_inside\<close> lie within the limits, the third row of \<open>rhale_outside\<close>
  does not. The SHAP object has the instances \<open>1\<close> and \<open>3\<close> and the limits
  \<open>[1, 3]\<close>.
\<close>

definition rhale_inside :: rhale where
  "rhale_inside =
     \<lparr>method_name = PyStr ''RHALE'', nof_instances = 2, indices = [0, 1],
      data = [[0], [1]], dimD = 1, model = PyFun (map hd), avg_output = PyFloat (Fin 1),
      axis_limits = PyArr2 1 [[0], [1]], feature_names = PyNone, target_name = PyNone,
      is_fitted = [False], method_args = Map.empty, feature_effect = Map.empty,
      model_jac = None, data_effect = Some [[1], [1]]\<rparr>"

definition rhale_outside :: rhale where
  "rhale_outside =
     \<lparr>method_name = PyStr ''RHALE'', nof_instances = 3, indices = [0, 1, 2],
      data = [[0], [1], [2]], dimD = 1, model = PyFun (map hd), avg_output = PyFloat (Fin 1),
      axis_limits = PyArr2 1 [[0], [1]], feature_names = PyNone, target_name = PyNone,
      is_fitted = [False], method_args = Map.empty, feature_effect = Map.empty,
      model_jac = None, data_effect = Some [[1], [1], [1]]\<rparr>"

definition shap_example :: shap where
  "shap_example =
     \<lparr>method_name = PyStr ''SHAP'', nof_instances = 2, indices = [0, 1],
      data = [[1], [3]], dimD = 1, model = PyFun (map hd), avg_output = PyFloat (Fin 2),
      axis_limits = PyArr2 1 [[1], [3]], feature_names = PyNone, target_name = PyNone,
      is_fitted = [False], method_args = Map.empty, feature_effect = Map.empty\<rparr>"

lemma RHALE_fit_feature_inside:
  "RHALE_fit_feature env_example rhale_inside 0 b =
     (Inr \<lparr>limits = [0, 1], bin_effect = [1], dx = [1], bin_variance = [0],
           bin_estimator_variance = [0], alg_params = Some b\<rparr>, rhale_inside)"
  by (simp add: RHALE_fit_feature_def rhale_inside_def drop_outside_def np_column_def
      py_pos_def axis_limit_def py_index_def bool_index_def fit_feature_bins_def env_example_def)

lemma RHALE_fit_inside_uncentered:
  "RHALE_fit env_example rhale_inside (FeatInt 0) b (CBool False) =
     (Inr (), rhale_inside\<lparr>feature_effect := [''feature_0'' \<mapsto>
         \<lparr>limits = [0, 1], bin_effect = [1], dx = [1], bin_variance = [0],
           bin_estimator_variance = [0], alg_params = Some b\<rparr>],
       is_fitted := [True], method_args := [''feature_0'' \<mapsto> [''centering'' \<mapsto> CBool False]]\<rparr>)"
  by (simp add: RHALE_fit_def prep_centering_def prep_features_def RHALE_fit_feature_inside
      py_setitem_def py_pos_def) (simp add: rhale_inside_def)

lemma RHALE_fit_inside_centered:
  "RHALE_fit env_example rhale_inside (FeatInt 0) b (CStr ''zero_start'') =
     (Inl AttributeError, rhale_inside\<lparr>feature_effect := [''feature_0'' \<mapsto>
         \<lparr>limits = [0, 1], bin_effect = [1], dx = [1], bin_variance = [0],
           bin_estimator_variance = [0], alg_params = Some b\<rparr>]\<rparr>)"
  by (simp add: RHALE_fit_def prep_centering_def prep_features_def RHALE_fit_feature_inside)
    (simp add: rhale_inside_def)

lemma argsort_example: "argsort [1, 3] = [0, 1]"
  by (simp add: argsort_def upt_rec)

lemma shap_points_example:
  assumes "data st = [[1], [3]]" "dimD st = 1" "axis_limits st = PyArr2 1 [[1], [3]]"
  shows "shap_points env_example st 0 p q = Inr ([1, 3], [1, 3])"
  using assms
  by (simp add: shap_points_def env_example_def np_column_def py_pos_def
      axis_limit_def py_index_def bool_index_def take_rows_def upt_rec)

definition shap_fitted :: shap where
  "shap_fitted = shap_example\<lparr>feature_effect := [''feature_0'' \<mapsto>
       \<lparr>spline_mean = (\<lambda>x. x), spline_std = (\<lambda>x. x), xx = [1, 3], yy = [1, 3],
        norm_const = Fin 10000000000\<rparr>], is_fitted := [True]\<rparr>"

definition shap_refitted :: shap where
  "shap_refitted = shap_example\<lparr>feature_effect := [''feature_0'' \<mapsto>
       \<lparr>spline_mean = (\<lambda>x. x), spline_std = (\<lambda>x. x), xx = [1, 3], yy = [1, 3],
        norm_const = Fin 1\<rparr>], is_fitted := [True]\<rparr>"

lemma SHAP_fit_feature_example:
  assumes "data st = [[1], [3]]" "dimD st = 1" "axis_limits st = PyArr2 1 [[1], [3]]"
  shows "SHAP_fit_feature env_example st 0 (CBool False) p q =
     Inr \<lparr>spline_mean = (\<lambda>x. x), spline_std = (\<lambda>x. x), xx = [1, 3], yy = [1, 3],
          norm_const = Fin 10000000000\<rparr>"
    and "SHAP_fit_feature env_example st 0 (CStr ''zero_start'') p q =
     Inr \<lparr>spline_mean = (\<lambda>x. x), spline_std = (\<lambda>x. x), xx = [1, 3], yy = [1, 3],
          norm_const = Fin 1\<rparr>"
  by (simp_all add: SHAP_fit_feature_def shap_points_example [OF assms] argsort_example
      take_rows_def shap_norm_const_def py_index_def py_pos_def)
    (simp_all add: env_example_def)

lemma SHAP_fit_example:
  "SHAP_fit env_example shap_example (FeatInt 0) (CBool False) p q = (Inr (), shap_fitted)"
  "SHAP_fit env_example shap_fitted (FeatInt 0) (CStr ''zero_start'') p q = (Inr (), shap_refitted)"
  by (simp_all add: SHAP_fit_def prep_centering_def prep_features_def SHAP_fit_feature_example
      py_setitem_def py_pos_def shap_fitted_def shap_refitted_def shap_example_def)

definition rhale_fitted :: rhale where
  "rhale_fitted = rhale_inside\<lparr>feature_effect := [''feature_0'' \<mapsto>
         \<lparr>limits = [0, 1], bin_effect = [1], dx = [1], bin_variance = [0],
           bin_estimator_variance = [0], alg_params = Some (BinName ''greedy'')\<rparr>],
       is_fitted := [True], method_args := [''feature_0'' \<mapsto> [''centering'' \<mapsto> CBool False]]\<rparr>"

lemma eval_stored_example:
  "eval_stored shap_fitted 0 [2] False (CBool False) = Inr (Mean [Fin 2])"
  "eval_stored shap_refitted 0 [2] False (CStr ''zero_start'') = Inr (Mean [Fin 1])"
  by (simp_all add: eval_stored_def shap_fitted_def shap_refitted_def shap_example_def
      axis_limit_def py_index_def py_pos_def py_getitem_def)


section \<open>The constructors\<close>

text \<open>
  C1 (the code departs from the claim). The claim says that constructing an
  \<open>RHALE\<close> or \<open>SHAPDependence\<close> object from a 2-D dataset and a model callable
  succeeds. The positional call of \<open>GlobalEffect.__init__\<close> binds the model to
  the parameter \<open>data\<close>, whose first use is \<open>assert data.ndim == 2\<close>: a callable
  has no attribute \<open>ndim\<close>. For every environment, every 2-D dataset, every model
  callable and every value of the other arguments both constructors raise
  \<open>AttributeError\<close>, and no object is built.
\<close>

theorem constructors_raise_AttributeError:
  "RHALE_init E (PyArr2 D rows) (PyFun f) jac lims eff avg names target = Inl AttributeError
   \<and> SHAPDependence_init E (PyArr2 D rows) (PyFun f) lims avg names target = Inl AttributeError"
  by (simp add: RHALE_init_def SHAPDependence_init_def GlobalEffect_init_def ndim_def)


section \<open>RHALE: eval and fit\<close>

text \<open>
  C2 (the code departs from the claim). The claim says that \<open>RHALE.eval\<close> returns
  the accumulated mean-effect curve, and with heterogeneity the triple of curves.
  \<open>RHALE\<close> inherits \<open>eval\<close> from \<open>GlobalEffect\<close>, where it raises: for every
  object, fitted or not, and all arguments the call raises \<open>NotImplementedError\<close>.
\<close>

theorem RHALE_eval_raises_NotImplementedError:
  "RHALE_eval st feature xs heterogeneity c = Inl NotImplementedError"
  by (simp add: RHALE_eval_def GlobalEffect_eval_def)

lemma compile_frame:
  "compile E st = (r, st1) \<Longrightarrow>
     is_fitted st1 = is_fitted st \<and> method_args st1 = method_args st
     \<and> feature_effect st1 = feature_effect st"
  by (auto simp: compile_def split: option.splits sum.splits)

lemma RHALE_fit_feature_frame:
  "RHALE_fit_feature E st s b = (r, st1) \<Longrightarrow>
     is_fitted st1 = is_fitted st \<and> method_args st1 = method_args st
     \<and> feature_effect st1 = feature_effect st"
  unfolding RHALE_fit_feature_def
  by (auto split: if_splits prod.splits sum.splits dest!: compile_frame)

lemma RHALE_fit_loop_centering:
  assumes "c \<noteq> CBool False"
  shows "\<exists>e st1. RHALE_fit_loop E st (s # ss) b c = (Inl e, st1)
     \<and> is_fitted st1 = is_fitted st \<and> method_args st1 = method_args st"
proof (cases "RHALE_fit_feature E st s b")
  case (Pair r st1)
  with RHALE_fit_feature_frame [OF Pair] assms show ?thesis
    by (cases r) (simp_all add: Let_def)
qed

lemma RHALE_fit_centering:
  assumes "prep_centering c0 = Inr c" "c \<noteq> CBool False"
    and "prep_features feats (dimD st) = s # ss"
  shows "\<exists>e st1. RHALE_fit E st feats b c0 = (Inl e, st1)
     \<and> is_fitted st1 = is_fitted st \<and> method_args st1 = method_args st"
  using RHALE_fit_loop_centering [OF assms(2), of E st s ss b] assms(1,3)
  by (simp add: RHALE_fit_def)

text \<open>
  C3 (the code departs from the claim). The claim says that \<open>fit\<close> with a
  centering mode other than \<open>False\<close> stores the normalization constant, marks
  the feature fitted and records the centering mode. For every object, every
  environment, every binning method and every non-empty list of features (or
  single feature), \<open>fit\<close> with \<open>"zero_start"\<close>, \<open>"zero_integral"\<close> or \<open>True\<close>
  raises at the first feature, and leaves the fitted flags and the method-args
  map as they were: nothing is marked fitted and no centering mode is recorded.
\<close>

theorem RHALE_fit_with_centering_raises:
  "(\<exists>e st1. RHALE_fit E st (FeatList (s # ss)) b (CStr ''zero_start'') = (Inl e, st1)
       \<and> is_fitted st1 = is_fitted st \<and> method_args st1 = method_args st)
   \<and> (\<exists>e st1. RHALE_fit E st (FeatList (s # ss)) b (CStr ''zero_integral'') = (Inl e, st1)
       \<and> is_fitted st1 = is_fitted st \<and> method_args st1 = method_args st)
   \<and> (\<exists>e st1. RHALE_fit E st (FeatList (s # ss)) b (CBool True) = (Inl e, st1)
       \<and> is_fitted st1 = is_fitted st \<and> method_args st1 = method_args st)
   \<and> (\<exists>e st1. RHALE_fit E st (FeatInt s) b (CStr ''zero_start'') = (Inl e, st1)
       \<and> is_fitted st1 = is_fitted st \<and> method_args st1 = method_args st)
   \<and> (\<exists>e st1. RHALE_fit E st (FeatInt s) b (CStr ''zero_integral'') = (Inl e, st1)
       \<and> is_fitted st1 = is_fitted st \<and> method_args st1 = method_args st)
   \<and> (\<exists>e st1. RHALE_fit E st (FeatInt s) b (CBool True) = (Inl e, st1)
       \<and> is_fitted st1 = is_fitted st \<and> method_args st1 = method_args st)"
proof -
  have 1: "prep_centering (CStr ''zero_start'') = Inr (CStr ''zero_start'')"
    by (simp add: prep_centering_def)
  have 2: "prep_centering (CStr ''zero_integral'') = Inr (CStr ''zero_integral'')"
    by (simp add: prep_centering_def)
  have 3: "prep_centering (CBool True) = Inr (CStr ''zero_integral'')"
    by (simp add: prep_centering_def)
  have l: "prep_features (FeatList (s # ss)) (dimD st) = s # ss"
    by (simp add: prep_features_def)
  have i: "prep_features (FeatInt s) (dimD st) = s # []"
    by (simp add: prep_features_def)
  note a = RHALE_fit_centering [OF 1 _ l, of E b] RHALE_fit_centering [OF 2 _ l, of E b]
    RHALE_fit_centering [OF 3 _ l, of E b]
  note b = RHALE_fit_centering [OF 1 _ i, of E b] RHALE_fit_centering [OF 2 _ i, of E b]
    RHALE_fit_centering [OF 3 _ i, of E b]
  show ?thesis
    by (intro conjI a b) simp_all
qed

text \<open>
  C4 (the code departs from the claim). The claim says that \<open>fit\<close> succeeds, with
  data and effect rows aligned, even when some rows fall outside the limits.
  Lines 99-100 drop the outside rows from \<open>self.data\<close> itself, so the index of
  line 101 has one entry per remaining row, while \<open>self.data_effect\<close> still has
  one row per original instance: numpy refuses the boolean index of the wrong
  length. On three instances \<open>0, 1, 2\<close> with limits \<open>[0, 1]\<close> the call raises
  \<open>IndexError\<close>, having shortened \<open>self.data\<close> to two rows.
\<close>

theorem RHALE_fit_feature_outside_raises_IndexError:
  "RHALE_fit_feature E rhale_outside 0 b =
     (Inl IndexError, rhale_outside\<lparr>data := [[0], [1]]\<rparr>)"
  by (simp add: RHALE_fit_feature_def rhale_outside_def drop_outside_def np_column_def
      py_pos_def axis_limit_def py_index_def bool_index_def fit_feature_bins_def)


section \<open>The refit decision\<close>

text \<open>The centering mode recorded for a feature, if there is one.\<close>

definition recorded_centering :: "('fe, 'z) global_effect_scheme \<Rightarrow> int \<Rightarrow> centering option" where
  "recorded_centering st feature =
     (case method_args st (feature_key feature) of None \<Rightarrow> None | Some args \<Rightarrow> args ''centering'')"

text \<open>
  \<open>SHAPDependence.fit\<close> never writes \<open>method_args\<close>, and \<open>refit\<close> raises
  \<open>KeyError\<close> on a fitted feature without an entry there when a centering is
  requested.
\<close>

lemma SHAP_fit_loop_keeps_method_args:
  "SHAP_fit_loop E st fs c p q = (r, st1) \<Longrightarrow> method_args st1 = method_args st"
proof (induction fs arbitrary: st)
  case Nil
  then show ?case by simp
next
  case (Cons s ss)
  show ?case
  proof (cases "SHAP_fit_feature E st s c p q")
    case (Inl e)
    with Cons.prems show ?thesis by simp
  next
    case (Inr eff)
    let ?st1 = "st\<lparr>feature_effect := (feature_effect st)(feature_key s \<mapsto> eff)\<rparr>"
    show ?thesis
    proof (cases "py_setitem (is_fitted ?st1) s True")
      case (Inl e)
      with Inr Cons.prems show ?thesis by (auto simp: Let_def)
    next
      case (Inr fitted)
      with \<open>SHAP_fit_feature E st s c p q = Inr eff\<close> Cons.prems
      have "SHAP_fit_loop E (?st1\<lparr>is_fitted := fitted\<rparr>) ss c p q = (r, st1)"
        by (simp add: Let_def)
      from Cons.IH [OF this] show ?thesis by simp
    qed
  qed
qed

lemma SHAP_fit_keeps_method_args:
  "SHAP_fit E st feats c0 p q = (r, st1) \<Longrightarrow> method_args st1 = method_args st"
  by (auto simp: SHAP_fit_def split: sum.splits dest: SHAP_fit_loop_keeps_method_args)

lemma refit_KeyError_without_record:
  assumes "py_index (is_fitted st) feature = Inr True"
    and "method_args st (feature_key feature) = None" and "c \<noteq> CBool False"
  shows "refit st feature c = Inl KeyError"
  using assms by (simp add: refit_def py_getitem_def)

text \<open>
  C6 (the code departs from the claim). The claim says that \<open>refit\<close> returns
  true or false for every method object. \<open>RHALE.fit\<close> records the centering
  mode of a fitted feature in \<open>method_args\<close> (lines 163-166);
  \<open>SHAPDependence.fit\<close> (lines 190-194) marks the feature fitted and records
  nothing, and \<open>refit\<close> reads the record without a guard. After
  \<open>fit(features=0)\<close> on the example \<open>SHAPDependence\<close> object the feature is
  fitted, and \<open>refit(0, "zero_start")\<close> returns neither true nor false: it
  raises \<open>KeyError\<close>.
\<close>

theorem refit_raises_KeyError_after_SHAP_fit:
  "SHAP_fit env_example shap_example (FeatInt 0) (CBool False) (PyInt 100) (PyInt 100)
     = (Inr (), shap_fitted)
   \<and> py_index (is_fitted shap_fitted) 0 = Inr True
   \<and> refit shap_fitted 0 (CStr ''zero_start'') = Inl KeyError"
  by (simp add: SHAP_fit_example)
    (simp add: shap_fitted_def shap_example_def refit_def py_index_def py_pos_def py_getitem_def)

text \<open>
  Where the record is not read, or is there (as after \<open>RHALE.fit\<close>), the decision
  is the one the claim describes.
\<close>

lemma refit_decision_where_recorded:
  assumes "py_index (is_fitted st) feature = Inr fitted"
    and "fitted \<Longrightarrow> c \<noteq> CBool False \<Longrightarrow> recorded_centering st feature \<noteq> None"
  shows "refit st feature c =
     Inr (\<not> fitted \<or> (fitted \<and> recorded_centering st feature \<noteq> Some c \<and> c \<noteq> CBool False))"
  using assms
  by (auto simp: refit_def recorded_centering_def py_getitem_def split: option.splits)

lemma refit_decision_example:
  "RHALE_fit env_example rhale_inside (FeatInt 0) (BinName ''greedy'') (CBool False)
     = (Inr (), rhale_fitted)
   \<and> refit rhale_fitted 0 (CStr ''zero_start'') = Inr True
   \<and> refit rhale_fitted 0 (CBool False) = Inr False
   \<and> refit rhale_inside 0 (CBool False) = Inr True"
proof -
  have f: "py_index (is_fitted rhale_fitted) 0 = Inr True"
    by (simp add: rhale_fitted_def py_index_def py_pos_def)
  have r: "recorded_centering rhale_fitted 0 = Some (CBool False)"
    by (simp add: rhale_fitted_def recorded_centering_def)
  have u: "py_index (is_fitted rhale_inside) 0 = Inr False"
    by (simp add: rhale_inside_def py_index_def py_pos_def)
  show ?thesis
    using refit_decision_where_recorded [OF f, of "CStr ''zero_start''"]
      refit_decision_where_recorded [OF f, of "CBool False"]
      refit_decision_where_recorded [OF u, of "CBool False"] r
    by (simp add: RHALE_fit_inside_uncentered rhale_fitted_def)
qed


section \<open>SHAPDependence: when eval fits\<close>

lemma prep_centering_requested:
  "prep_centering c0 = Inr c \<Longrightarrow> (c \<noteq> CBool False) = (c0 \<noteq> CBool False)"
  by (auto simp: prep_centering_def py_assert_def split: centering.splits bool.splits if_splits)

text \<open>
  \<open>fit\<close> leaves the axis limits alone, and the evaluation of lines 232-245
  written out: the assertion on the limits, then the mean spline at each point
  (minus the stored norm constant when a centering is requested) and, with
  \<open>uncertainty\<close>, the std spline at each point and zeros.
\<close>

lemma SHAP_fit_loop_keeps_axis_limits:
  "SHAP_fit_loop E st fs c p q = (r, st1) \<Longrightarrow> axis_limits st1 = axis_limits st"
proof (induction fs arbitrary: st)
  case Nil
  then show ?case by simp
next
  case (Cons s ss)
  show ?case
  proof (cases "SHAP_fit_feature E st s c p q")
    case (Inl e)
    with Cons.prems show ?thesis by simp
  next
    case (Inr eff)
    let ?st1 = "st\<lparr>feature_effect := (feature_effect st)(feature_key s \<mapsto> eff)\<rparr>"
    show ?thesis
    proof (cases "py_setitem (is_fitted ?st1) s True")
      case (Inl e)
      with Inr Cons.prems show ?thesis by (auto simp: Let_def)
    next
      case (Inr fitted)
      with \<open>SHAP_fit_feature E st s c p q = Inr eff\<close> Cons.prems
      have "SHAP_fit_loop E (?st1\<lparr>is_fitted := fitted\<rparr>) ss c p q = (r, st1)"
        by (simp add: Let_def)
      from Cons.IH [OF this] show ?thesis by simp
    qed
  qed
qed

lemma SHAP_fit_keeps_axis_limits:
  "SHAP_fit E st feats c0 p q = (r, st1) \<Longrightarrow> axis_limits st1 = axis_limits st"
  by (auto simp: SHAP_fit_def split: sum.splits dest: SHAP_fit_loop_keeps_axis_limits)

lemma axis_limit_cong:
  "axis_limits st1 = axis_limits st \<Longrightarrow> axis_limit st1 i feature = axis_limit st i feature"
  by (simp add: axis_limit_def)

lemma eval_stored_explicit:
  assumes "axis_limit st 0 feature = Inr lo" "axis_limit st 1 feature = Inr hi"
    and "(c \<noteq> CBool False) = centered"
  shows "eval_stored st feature xs uncertainty c =
     (if lo < hi then
        (case feature_effect st (feature_key feature) of
           None \<Rightarrow> Inl KeyError
         | Some eff \<Rightarrow>
             Inr (if uncertainty
                  then Triple
                    (map (\<lambda>x. if centered
                               then np_sub (Fin (spline_mean eff x)) (norm_const eff)
                               else Fin (spline_mean eff x)) xs)
                    (map (\<lambda>x. Fin (spline_std eff x)) xs) (map (\<lambda>x. Fin 0) xs)
                  else Mean
                    (map (\<lambda>x. if centered
                               then np_sub (Fin (spline_mean eff x)) (norm_const eff)
                               else Fin (spline_mean eff x)) xs)))
      else Inl AssertionError)"
proof (cases centered)
  case True
  with assms show ?thesis
    by (simp add: eval_stored_def py_getitem_def Let_def split: option.splits)
next
  case False
  with assms show ?thesis
    by (simp add: eval_stored_def py_getitem_def Let_def split: option.splits)
qed

text \<open>
  C5. Let the centering be one that \<open>prep_centering\<close> accepts, the feature an
  index of the object with axis limits \<open>lo\<close> and \<open>hi\<close>, and a fitted feature
  have its effect record \<open>eff\<close>. Then \<open>eval\<close> calls \<open>fit\<close> for the feature
  exactly when the feature is not fitted, or it is fitted, its stored norm
  constant is the empty-value sentinel and the requested centering is not
  \<open>False\<close>; it then evaluates the splines of the record that \<open>fit\<close> stored.
  Otherwise it leaves the object as it was and evaluates the splines already
  stored in \<open>eff\<close>: the mean spline at each point of \<open>xs\<close>, minus the stored
  norm constant when a centering is requested, and with \<open>uncertainty\<close> also the
  std spline at each point and zeros. In both cases the evaluation is preceded
  by the assertion \<open>lo < hi\<close>.
\<close>

theorem SHAP_eval_fits_exactly_when:
  assumes "prep_centering c0 = Inr c"
    and "py_index (is_fitted st) feature = Inr fitted"
    and "fitted \<Longrightarrow> feature_effect st (feature_key feature) = Some eff"
    and "axis_limit st 0 feature = Inr lo" and "axis_limit st 1 feature = Inr hi"
  shows "SHAP_eval E st feature xs uncertainty c0 =
     (let mean = (\<lambda>e. map (\<lambda>x. if c0 \<noteq> CBool False
                                then np_sub (Fin (spline_mean e x)) (norm_const e)
                                else Fin (spline_mean e x)) xs);
          curve = (\<lambda>e. if uncertainty
                       then Triple (mean e) (map (\<lambda>x. Fin (spline_std e x)) xs)
                              (map (\<lambda>x. Fin 0) xs)
                       else Mean (mean e));
          outcome = (\<lambda>r. if lo < hi
                         then (case r of None \<Rightarrow> Inl KeyError | Some e \<Rightarrow> Inr (curve e))
                         else Inl AssertionError)
      in if \<not> fitted \<or> (fitted \<and> norm_const eff = Fin (EMPTY_SYMBOL E) \<and> c0 \<noteq> CBool False)
         then (case SHAP_fit E st (FeatInt feature) c (PyInt 100) (PyInt 100) of
                 (Inl e, st1) \<Rightarrow> (Inl e, st1)
               | (Inr u, st1) \<Rightarrow> (outcome (feature_effect st1 (feature_key feature)), st1))
         else (outcome (Some eff), st))"
proof -
  note rq = prep_centering_requested [OF assms(1)]
  have cond: "eval_fit_condition E st feature c =
      Inr (\<not> fitted \<or> (fitted \<and> norm_const eff = Fin (EMPTY_SYMBOL E) \<and> c0 \<noteq> CBool False))"
  proof (cases fitted)
    case False
    with assms(2) show ?thesis by (simp add: eval_fit_condition_def)
  next
    case True
    with assms(3) have "feature_effect st (feature_key feature) = Some eff" by simp
    with True assms(2) rq show ?thesis
      by (simp add: eval_fit_condition_def py_getitem_def)
  qed
  let ?C = "\<not> fitted \<or> (fitted \<and> norm_const eff = Fin (EMPTY_SYMBOL E) \<and> c0 \<noteq> CBool False)"
  show ?thesis
  proof (cases ?C)
    case True
    obtain r st1 where f: "SHAP_fit E st (FeatInt feature) c (PyInt 100) (PyInt 100) = (r, st1)"
      by (cases "SHAP_fit E st (FeatInt feature) c (PyInt 100) (PyInt 100)")
    have lims: "axis_limit st1 0 feature = Inr lo" "axis_limit st1 1 feature = Inr hi"
      using axis_limit_cong [OF SHAP_fit_keeps_axis_limits [OF f]] assms(4,5) by simp_all
    have c: "eval_fit_condition E st feature c = Inr True"
      using cond True by simp
    have l: "SHAP_eval E st feature xs uncertainty c0 =
        (case r of Inl e \<Rightarrow> (Inl e, st1)
         | Inr u \<Rightarrow> (eval_stored st1 feature xs uncertainty c, st1))"
      using c f assms(1) by (simp add: SHAP_eval_def split: sum.splits)
    show ?thesis
      unfolding l Let_def if_P [OF True] f
      by (cases r) (simp_all add: eval_stored_explicit [OF lims rq])
  next
    case False
    then have fitted by blast
    with assms(3) have e: "feature_effect st (feature_key feature) = Some eff" by simp
    have c: "eval_fit_condition E st feature c = Inr False"
      using cond False by simp
    have l: "SHAP_eval E st feature xs uncertainty c0 = (eval_stored st feature xs uncertainty c, st)"
      using c assms(1) by (simp add: SHAP_eval_def)
    show ?thesis
      unfolding l Let_def if_not_P [OF False]
      by (simp add: eval_stored_explicit [OF assms(4,5) rq] e)
  qed
qed


text \<open>
  An environment whose spline through \<open>(xs, ys)\<close> is \<open>2 x + sum ys\<close>, and the
  example object after \<open>fit\<close> without centering and after the refit with
  \<open>"zero_start"\<close>: the mean spline is \<open>2 x + 4\<close>, the std spline \<open>2 x + 12\<close>,
  the norm constant the sentinel and then \<open>6\<close>.
\<close>

definition env_affine :: env where
  "env_affine = env_example\<lparr>UnivariateSpline := (\<lambda>xs ys. Inr (\<lambda>x. 2 * x + sum_list ys))\<rparr>"

definition affine_effect :: "real \<Rightarrow> shap_effect" where
  "affine_effect nc = \<lparr>spline_mean = (\<lambda>x. 2 * x + 4), spline_std = (\<lambda>x. 2 * x + 12),
     xx = [1, 3], yy = [1, 3], norm_const = Fin nc\<rparr>"

definition shap_affine_fitted :: shap where
  "shap_affine_fitted = shap_example\<lparr>feature_effect := [''feature_0'' \<mapsto> affine_effect 10000000000],
     is_fitted := [True]\<rparr>"

definition shap_affine_refitted :: shap where
  "shap_affine_refitted = shap_example\<lparr>feature_effect := [''feature_0'' \<mapsto> affine_effect 6],
     is_fitted := [True]\<rparr>"

lemma shap_points_affine:
  assumes "data st = [[1], [3]]" "dimD st = 1" "axis_limits st = PyArr2 1 [[1], [3]]"
  shows "shap_points env_affine st 0 p q = Inr ([1, 3], [1, 3])"
  using assms
  by (simp add: shap_points_def env_affine_def env_example_def np_column_def py_pos_def
      axis_limit_def py_index_def bool_index_def take_rows_def upt_rec)

lemma SHAP_fit_feature_affine:
  assumes "data st = [[1], [3]]" "dimD st = 1" "axis_limits st = PyArr2 1 [[1], [3]]"
  shows "SHAP_fit_feature env_affine st 0 (CBool False) p q = Inr (affine_effect 10000000000)"
    and "SHAP_fit_feature env_affine st 0 (CStr ''zero_start'') p q = Inr (affine_effect 6)"
proof -
  have s: "UnivariateSpline env_affine = (\<lambda>xs ys. Inr (\<lambda>x. 2 * x + sum_list ys))"
    and e: "EMPTY_SYMBOL env_affine = 10000000000"
    by (simp_all add: env_affine_def env_example_def)
  show "SHAP_fit_feature env_affine st 0 (CBool False) p q = Inr (affine_effect 10000000000)"
    by (simp add: SHAP_fit_feature_def shap_points_affine [OF assms] argsort_example
        take_rows_def shap_norm_const_def s e affine_effect_def)
  show "SHAP_fit_feature env_affine st 0 (CStr ''zero_start'') p q = Inr (affine_effect 6)"
    by (simp add: SHAP_fit_feature_def shap_points_affine [OF assms] argsort_example
        take_rows_def shap_norm_const_def py_index_def py_pos_def s affine_effect_def)
qed

lemma SHAP_fit_affine:
  "SHAP_fit env_affine shap_example (FeatInt 0) (CBool False) p q = (Inr (), shap_affine_fitted)"
  "SHAP_fit env_affine shap_affine_fitted (FeatInt 0) (CStr ''zero_start'') p q
     = (Inr (), shap_affine_refitted)"
  by (simp_all add: SHAP_fit_def prep_centering_def prep_features_def SHAP_fit_feature_affine
      py_setitem_def py_pos_def shap_affine_fitted_def shap_affine_refitted_def shap_example_def)

theorem SHAP_eval_fits_exactly_when_witness:
  "SHAP_eval env_affine shap_example 0 [2] True (CBool False)
       = (Inr (Triple [Fin 8] [Fin 16] [Fin 0]), shap_affine_fitted)
   \<and> SHAP_eval env_affine shap_affine_fitted 0 [2] True (CBool False)
       = (Inr (Triple [Fin 8] [Fin 16] [Fin 0]), shap_affine_fitted)
   \<and> SHAP_eval env_affine shap_affine_fitted 0 [2] True (CStr ''zero_start'')
       = (Inr (Triple [Fin 2] [Fin 16] [Fin 0]), shap_affine_refitted)
   \<and> SHAP_eval env_affine shap_affine_refitted 0 [2] True (CStr ''zero_start'')
       = (Inr (Triple [Fin 2] [Fin 16] [Fin 0]), shap_affine_refitted)"
proof -
  have c1: "prep_centering (CBool False) = Inr (CBool False)"
    and c2: "prep_centering (CStr ''zero_start'') = Inr (CStr ''zero_start'')"
    by (simp_all add: prep_centering_def)
  have u: "py_index (is_fitted shap_example) 0 = Inr False"
    and f: "py_index (is_fitted shap_affine_fitted) 0 = Inr True"
    and r: "py_index (is_fitted shap_affine_refitted) 0 = Inr True"
    by (simp_all add: shap_example_def shap_affine_fitted_def shap_affine_refitted_def
        py_index_def py_pos_def)
  have ef: "feature_effect shap_affine_fitted (feature_key 0) = Some (affine_effect 10000000000)"
    and er: "feature_effect shap_affine_refitted (feature_key 0) = Some (affine_effect 6)"
    by (simp_all add: shap_affine_fitted_def shap_affine_refitted_def)
  have ef': "feature_effect shap_affine_fitted ''feature_0'' = Some (affine_effect 10000000000)"
    and er': "feature_effect shap_affine_refitted ''feature_0'' = Some (affine_effect 6)"
    by (simp_all add: shap_affine_fitted_def shap_affine_refitted_def)
  have lu: "axis_limit shap_example 0 0 = Inr 1" "axis_limit shap_example 1 0 = Inr 3"
    and lf: "axis_limit shap_affine_fitted 0 0 = Inr 1" "axis_limit shap_affine_fitted 1 0 = Inr 3"
    and lr: "axis_limit shap_affine_refitted 0 0 = Inr 1"
      "axis_limit shap_affine_refitted 1 0 = Inr 3"
    by (simp_all add: shap_example_def shap_affine_fitted_def shap_affine_refitted_def
        axis_limit_def py_index_def py_pos_def)
  have E: "EMPTY_SYMBOL env_affine = 10000000000"
    by (simp add: env_affine_def env_example_def)
  have 1: "SHAP_eval env_affine shap_example 0 [2] True (CBool False)
       = (Inr (Triple [Fin 8] [Fin 16] [Fin 0]), shap_affine_fitted)"
    using SHAP_eval_fits_exactly_when [OF c1 u _ lu, of undefined env_affine "[2]" True]
    by (simp add: SHAP_fit_affine ef' affine_effect_def)
  have 2: "SHAP_eval env_affine shap_affine_fitted 0 [2] True (CBool False)
       = (Inr (Triple [Fin 8] [Fin 16] [Fin 0]), shap_affine_fitted)"
    using SHAP_eval_fits_exactly_when [OF c1 f ef lf, of env_affine "[2]" True]
    by (simp add: affine_effect_def)
  have 3: "SHAP_eval env_affine shap_affine_fitted 0 [2] True (CStr ''zero_start'')
       = (Inr (Triple [Fin 2] [Fin 16] [Fin 0]), shap_affine_refitted)"
    using SHAP_eval_fits_exactly_when [OF c2 f ef lf, of env_affine "[2]" True]
    by (simp add: E SHAP_fit_affine er' affine_effect_def)
  have 4: "SHAP_eval env_affine shap_affine_refitted 0 [2] True (CStr ''zero_start'')
       = (Inr (Triple [Fin 2] [Fin 16] [Fin 0]), shap_affine_refitted)"
    using SHAP_eval_fits_exactly_when [OF c2 r er lr, of env_affine "[2]" True]
    by (simp add: E affine_effect_def)
  show ?thesis by (intro conjI 1 2 3 4)
qed


section \<open>SHAPDependence: the norm constant\<close>

text \<open>
  The claim's words, as definitions of their own: the \<open>i\<close>-th point of the
  uniform grid of \<open>n\<close> points that spans \<open>[a, b]\<close>, and the trapezoidal rule on
  that grid, each cell of width \<open>(b - a) / (n - 1)\<close>. \<open>grid_size\<close> is the number
  of points \<open>np.linspace\<close> reads from its \<open>num\<close> argument.
\<close>

definition uniform_grid :: "real \<Rightarrow> real \<Rightarrow> nat \<Rightarrow> nat \<Rightarrow> real" where
  "uniform_grid a b n i = a + real i * ((b - a) / real (n - 1))"

definition trapezoid_rule :: "(real \<Rightarrow> real) \<Rightarrow> real \<Rightarrow> real \<Rightarrow> nat \<Rightarrow> real" where
  "trapezoid_rule f a b n =
     (\<Sum>i<n - 1. (b - a) / real (n - 1)
        * (f (uniform_grid a b n i) + f (uniform_grid a b n (Suc i))) / 2)"

definition grid_size :: "pyobj \<Rightarrow> nat" where
  "grid_size num = (case num of PyInt n \<Rightarrow> nat n | PyBool t \<Rightarrow> (if t then 1 else 0) | _ \<Rightarrow> 0)"

lemma uniform_grid_ends:
  "uniform_grid a b n 0 = a" "2 \<le> n \<Longrightarrow> uniform_grid a b n (n - 1) = b"
  by (simp_all add: uniform_grid_def)

lemma uniform_grid_step:
  "uniform_grid a b n (Suc i) - uniform_grid a b n i = (b - a) / real (n - 1)"
  by (simp add: uniform_grid_def distrib_right add_divide_distrib)

lemma np_trapz_sum:
  "np_trapz (map f xs) xs =
     (\<Sum>i<length xs - 1. (xs ! Suc i - xs ! i) * (f (xs ! Suc i) + f (xs ! i)) / 2)"
proof (induction xs)
  case Nil
  show ?case by simp
next
  case (Cons x xs)
  show ?case
  proof (cases xs)
    case Nil
    then show ?thesis by simp
  next
    case (Cons x1 xs1)
    have "np_trapz (map f (x # xs)) (x # xs) =
        (x1 - x) * (f x1 + f x) / 2 + np_trapz (map f xs) xs"
      using Cons by simp
    also have "\<dots> = (x1 - x) * (f x1 + f x) / 2
        + (\<Sum>i<length xs - 1. (xs ! Suc i - xs ! i) * (f (xs ! Suc i) + f (xs ! i)) / 2)"
      using Cons.IH by simp
    also have "\<dots> = (\<Sum>i<Suc (length xs - 1).
         ((x # xs) ! Suc i - (x # xs) ! i) * (f ((x # xs) ! Suc i) + f ((x # xs) ! i)) / 2)"
      by (subst sum.lessThan_Suc_shift) (simp add: Cons)
    finally show ?thesis using Cons by simp
  qed
qed

lemma linspace_points_nth:
  "n \<noteq> 1 \<Longrightarrow> i < n \<Longrightarrow> linspace_points a b n ! i = uniform_grid a b n i"
  by (simp add: linspace_points_def uniform_grid_def)

lemma length_linspace_points [simp]: "length (linspace_points a b n) = n"
  by (simp add: linspace_points_def)

lemma np_trapz_linspace:
  "np_trapz (map f (linspace_points a b n)) (linspace_points a b n) = trapezoid_rule f a b n"
proof (cases "n = 1")
  case True
  then show ?thesis by (simp add: linspace_points_def trapezoid_rule_def)
next
  case False
  have "np_trapz (map f (linspace_points a b n)) (linspace_points a b n) =
      (\<Sum>i<n - 1. (linspace_points a b n ! Suc i - linspace_points a b n ! i)
          * (f (linspace_points a b n ! Suc i) + f (linspace_points a b n ! i)) / 2)"
    by (simp add: np_trapz_sum)
  also have "\<dots> = (\<Sum>i<n - 1. (uniform_grid a b n (Suc i) - uniform_grid a b n i)
          * (f (uniform_grid a b n (Suc i)) + f (uniform_grid a b n i)) / 2)"
    using False by (intro sum.cong refl) (simp add: linspace_points_nth)
  also have "\<dots> = trapezoid_rule f a b n"
    by (simp add: trapezoid_rule_def uniform_grid_step add.commute)
  finally show ?thesis .
qed

definition sorted_by_argsort :: "real list \<Rightarrow> real list" where
  "sorted_by_argsort xs = map (\<lambda>i. xs ! i) (argsort xs)"

lemma take_rows_argsort: "take_rows xs (argsort xs) = Inr (sorted_by_argsort xs)"
  by (simp add: take_rows_def sorted_by_argsort_def argsort_def list_all_iff)

lemma sorted_by_argsort_props:
  "sorted (sorted_by_argsort xs)" "set (sorted_by_argsort xs) = set xs"
  "length (sorted_by_argsort xs) = length xs"
proof -
  show "sorted (sorted_by_argsort xs)"
    by (simp add: sorted_by_argsort_def argsort_def)
  have "set (sorted_by_argsort xs) = (\<lambda>i. xs ! i) ` set [0..<length xs]"
    by (simp add: sorted_by_argsort_def argsort_def)
  also have "\<dots> = set (map (\<lambda>i. xs ! i) [0..<length xs])" by simp
  also have "\<dots> = set xs" by (simp only: map_nth)
  finally show "set (sorted_by_argsort xs) = set xs" .
  show "length (sorted_by_argsort xs) = length xs"
    by (simp add: sorted_by_argsort_def argsort_def)
qed

lemma sorted_first_last:
  fixes ys :: "real list"
  assumes "sorted ys" "ys \<noteq> []"
  shows "py_index ys 0 = Inr (Min (set ys))" "py_index ys (- 1) = Inr (Max (set ys))"
proof -
  have "ys ! 0 = Min (set ys)"
  proof (rule Min_eqI [symmetric])
    show "finite (set ys)" by simp
    show "ys ! 0 \<in> set ys" using assms(2) by simp
    fix y assume "y \<in> set ys"
    then obtain i where "i < length ys" "y = ys ! i" by (auto simp: in_set_conv_nth)
    then show "ys ! 0 \<le> y" using assms(1) by (simp add: sorted_nth_mono)
  qed
  moreover have "ys ! (length ys - 1) = Max (set ys)"
  proof (rule Max_eqI [symmetric])
    show "finite (set ys)" by simp
    show "ys ! (length ys - 1) \<in> set ys" using assms(2) by simp
    fix y assume "y \<in> set ys"
    then obtain i where "i < length ys" "y = ys ! i" by (auto simp: in_set_conv_nth)
    then show "y \<le> ys ! (length ys - 1)" using assms(1) by (simp add: sorted_nth_mono)
  qed
  moreover have "Suc 0 \<le> length ys" using assms(2) by (cases ys) simp_all
  ultimately show "py_index ys 0 = Inr (Min (set ys))" "py_index ys (- 1) = Inr (Max (set ys))"
    using assms(2) by (simp_all add: py_index_def py_pos_def nat_diff_distrib)
qed


lemma np_linspace_Inr:
  "np_linspace a b q = Inr g \<Longrightarrow> g = linspace_points a b (grid_size q)"
  by (auto simp: np_linspace_def grid_size_def split: pyobj.splits if_splits)

lemma py_index_Inr_not_Nil: "py_index ys i = Inr y \<Longrightarrow> ys \<noteq> []"
  by (auto simp: py_index_def py_pos_def split: if_splits)

lemma shap_norm_const_value:
  assumes nc: "shap_norm_const E f xs c q = Inr nc" and s: "sorted xs"
  shows "nc =
     (if c = CStr ''zero_integral''
      then np_div (trapezoid_rule f (Min (set xs)) (Max (set xs)) (grid_size q))
             (Max (set xs) - Min (set xs))
      else if c = CStr ''zero_start'' then Fin (f (Min (set xs)))
      else Fin (EMPTY_SYMBOL E))"
proof (cases "c = CStr ''zero_integral''")
  case True
  from nc True obtain x_first x_last x_norm where
    a: "py_index xs 0 = Inr x_first" and b: "py_index xs (- 1) = Inr x_last"
    and g: "np_linspace x_first x_last q = Inr x_norm"
    and v: "nc = np_div (np_trapz (map f x_norm) x_norm) (x_last - x_first)"
    by (auto simp: shap_norm_const_def ebind_eq_Inr)
  have ne: "xs \<noteq> []" using a by (rule py_index_Inr_not_Nil)
  have "x_first = Min (set xs)" "x_last = Max (set xs)"
    using sorted_first_last [OF s ne] a b by simp_all
  with v np_linspace_Inr [OF g] True show ?thesis
    by (simp add: np_trapz_linspace)
next
  case False
  show ?thesis
  proof (cases "c = CStr ''zero_start''")
    case True
    from nc True obtain x_first where
      a: "py_index xs 0 = Inr x_first" and v: "nc = Fin (f x_first)"
      by (auto simp: shap_norm_const_def ebind_eq_Inr)
    have ne: "xs \<noteq> []" using a by (rule py_index_Inr_not_Nil)
    have "x_first = Min (set xs)"
      using sorted_first_last(1) [OF s ne] a by simp
    with v True show ?thesis by simp
  next
    case False
    with \<open>c \<noteq> CStr ''zero_integral''\<close> nc show ?thesis
      by (simp add: shap_norm_const_def)
  qed
qed

text \<open>
  C7. Whenever \<open>_fit_feature\<close> returns, the norm constant it stores is, with
  \<open>xs\<close> the values of the feature on the rows used for the fit: for
  \<open>"zero_integral"\<close>, the trapezoidal rule of the mean spline on the uniform grid
  of \<open>points_for_centering\<close> points spanning \<open>[min xs, max xs]\<close>, divided by
  \<open>max xs - min xs\<close> (\<open>NonFinite\<close> when the range is a single point); for
  \<open>"zero_start"\<close>, the mean spline at \<open>min xs\<close>; otherwise the empty-value
  sentinel.
\<close>

theorem SHAP_fit_feature_norm_const:
  assumes "SHAP_fit_feature E st feature c points_for_fitting_spline points_for_centering = Inr eff"
  shows "\<exists>xs ys. shap_points E st feature points_for_fitting_spline points_for_centering
           = Inr (xs, ys)
     \<and> norm_const eff =
       (if c = CStr ''zero_integral''
        then np_div (trapezoid_rule (spline_mean eff) (Min (set xs)) (Max (set xs))
                       (grid_size points_for_centering))
               (Max (set xs) - Min (set xs))
        else if c = CStr ''zero_start'' then Fin (spline_mean eff (Min (set xs)))
        else Fin (EMPTY_SYMBOL E))"
proof -
  from assms obtain xs ys ys1 mean_spline std_spline nc where
    p: "shap_points E st feature points_for_fitting_spline points_for_centering = Inr (xs, ys)"
    and n: "shap_norm_const E mean_spline (sorted_by_argsort xs) c points_for_centering = Inr nc"
    and e: "eff = \<lparr>spline_mean = mean_spline, spline_std = std_spline,
                   xx = sorted_by_argsort xs, yy = ys1, norm_const = nc\<rparr>"
    by (auto simp: SHAP_fit_feature_def ebind_eq_Inr take_rows_argsort Let_def)
  from shap_norm_const_value [OF n sorted_by_argsort_props(1)] e p show ?thesis
    by (simp add: sorted_by_argsort_props(2))
qed


lemma linspace_points_example: "linspace_points 1 3 3 = [1, 2, 3]"
  by (simp add: linspace_points_def upt_rec)

lemma SHAP_fit_feature_zero_integral_example:
  "SHAP_fit_feature env_example shap_example 0 (CStr ''zero_integral'') (PyInt 100) (PyInt 3) =
     Inr \<lparr>spline_mean = (\<lambda>x. x), spline_std = (\<lambda>x. x), xx = [1, 3], yy = [1, 3],
          norm_const = Fin 2\<rparr>"
proof -
  have p: "shap_points env_example shap_example 0 (PyInt 100) (PyInt 3) = Inr ([1, 3], [1, 3])"
    by (rule shap_points_example) (simp_all add: shap_example_def)
  have s: "UnivariateSpline env_example = (\<lambda>xs ys. Inr (\<lambda>x. x))"
    by (simp add: env_example_def)
  show ?thesis
    by (simp add: SHAP_fit_feature_def p argsort_example take_rows_def s shap_norm_const_def
        py_index_def py_pos_def np_linspace_def linspace_points_example np_div_def)
qed

theorem SHAP_fit_feature_norm_const_witness:
  "\<exists>eff. SHAP_fit_feature env_example shap_example 0 (CStr ''zero_integral'') (PyInt 100) (PyInt 3)
       = Inr eff
     \<and> norm_const eff = np_div (trapezoid_rule (spline_mean eff) 1 3 3) (3 - 1)
     \<and> norm_const eff = Fin 2"
proof -
  let ?eff = "\<lparr>spline_mean = (\<lambda>x. x), spline_std = (\<lambda>x. x), xx = [1, 3], yy = [1, 3],
          norm_const = Fin 2\<rparr> :: shap_effect"
  have p: "shap_points env_example shap_example 0 (PyInt 100) (PyInt 3) = Inr ([1, 3], [1, 3])"
    by (rule shap_points_example) (simp_all add: shap_example_def)
  have "norm_const ?eff = np_div (trapezoid_rule (spline_mean ?eff) 1 3 3) (3 - 1)"
    using SHAP_fit_feature_norm_const [OF SHAP_fit_feature_zero_integral_example] p
    by (simp add: grid_size_def)
  then show ?thesis
    using SHAP_fit_feature_zero_integral_example by simp
qed



section \<open>SHAPDependence: plot with a number of SHAP values\<close>

lemma prep_confidence_interval_not_shap_values:
  "prep_confidence_interval ci0 = Inr ci \<Longrightarrow> ci0 \<noteq> CStr ''shap_values'' \<Longrightarrow>
     ci \<noteq> CStr ''shap_values''"
  by (auto simp: prep_confidence_interval_def py_assert_def
      split: centering.splits bool.splits if_splits)

lemma select_shap_values_None:
  "select_shap_values E None ys (PyInt n) = Inl TypeError"
  by (simp add: select_shap_values_def py_len_def)

lemma plot_after_eval_raises:
  assumes "ci \<noteq> CStr ''shap_values''"
  shows "\<exists>e. plot_after_eval E st feature ci x y (PyInt n) show_avg_output = Inl e"
proof (cases "ci = CStr ''std''")
  case True
  then show ?thesis
    by (cases "py_getitem (feature_effect st) (feature_key feature)")
      (simp_all add: plot_after_eval_def select_shap_values_None)
next
  case False
  with assms show ?thesis
    by (simp add: plot_after_eval_def select_shap_values_None)
qed

lemma plot_after_eval_TypeError:
  assumes "ci \<noteq> CStr ''shap_values''" "feature_effect st (feature_key feature) = Some eff"
  shows "plot_after_eval E st feature ci x y (PyInt n) show_avg_output = Inl TypeError"
  using assms by (simp add: plot_after_eval_def select_shap_values_None py_getitem_def)

text \<open>
  C10. For every object (with a fitted feature or not), every environment and all
  other arguments: when \<open>confidence_interval\<close> is not \<open>"shap_values"\<close> and
  \<open>nof_shap_values\<close> is an integer, \<open>plot\<close> raises before the rendering call.
  If nothing before line 311 raises, the exception is the \<open>TypeError\<close> of
  \<open>len(None)\<close> (lemma \<open>plot_after_eval_TypeError\<close>); with the default
  \<open>nof_shap_values="all"\<close> the same call renders (lemma
  \<open>SHAP_plot_all_renders_example\<close>).
\<close>

theorem SHAP_plot_raises_before_rendering:
  assumes "confidence_interval \<noteq> CStr ''shap_values''"
  shows "\<exists>e st1. SHAP_plot E st feature confidence_interval c nof_axis_points (PyInt n)
           show_avg_output = (Inl e, st1)"
proof (cases "ebind (prep_confidence_interval confidence_interval) (\<lambda>ci.
           ebind (axis_limit st 0 feature) (\<lambda>lo.
           ebind (axis_limit st 1 feature) (\<lambda>hi.
           ebind (np_linspace lo hi nof_axis_points) (\<lambda>x. Inr (ci, x)))))")
  case (Inl e)
  then show ?thesis by (simp add: SHAP_plot_def)
next
  case (Inr r)
  obtain ci x where r: "r = (ci, x)" by (cases r)
  from Inr r have "prep_confidence_interval confidence_interval = Inr ci"
    by (auto simp: ebind_eq_Inr)
  from prep_confidence_interval_not_shap_values [OF this assms]
  have ci: "ci \<noteq> CStr ''shap_values''" .
  obtain res st1 where ev: "SHAP_eval E st feature x False c = (res, st1)"
    by (cases "SHAP_eval E st feature x False c")
  show ?thesis
  proof (cases res)
    case (Inl e)
    with Inr r ev show ?thesis by (simp add: SHAP_plot_def)
  next
    case (Inr y)
    from plot_after_eval_raises [OF ci, of E st1 feature x y n show_avg_output]
    obtain e where "plot_after_eval E st1 feature ci x y (PyInt n) show_avg_output = Inl e" ..
    with \<open>_ = Inr r\<close> r ev Inr show ?thesis by (simp add: SHAP_plot_def)
  qed
qed


lemma SHAP_eval_fitted_example:
  "SHAP_eval env_example shap_fitted 0 [1, 2, 3] False (CBool False) =
     (Inr (Mean [Fin 1, Fin 2, Fin 3]), shap_fitted)"
  by (simp add: SHAP_eval_def prep_centering_def eval_fit_condition_def eval_stored_def
      shap_fitted_def shap_example_def axis_limit_def py_index_def py_pos_def py_getitem_def)

lemma SHAP_plot_head_example:
  "ebind (prep_confidence_interval (CBool False)) (\<lambda>ci.
     ebind (axis_limit shap_fitted 0 0) (\<lambda>lo.
     ebind (axis_limit shap_fitted 1 0) (\<lambda>hi.
     ebind (np_linspace lo hi (PyInt 3)) (\<lambda>x. Inr (ci, x))))) = Inr (CBool False, [1, 2, 3])"
  by (simp add: prep_confidence_interval_def shap_fitted_def shap_example_def axis_limit_def
      py_index_def py_pos_def np_linspace_def linspace_points_example)

lemma SHAP_plot_all_renders_example:
  "SHAP_plot env_example shap_fitted 0 (CBool False) (CBool False) (PyInt 3) (PyStr ''all'') False =
     (Inr \<lparr>plot_x = [1, 2, 3], plot_y = Mean [Fin 1, Fin 2, Fin 3], plot_xx = None,
           plot_yy = None, plot_y_std = None, plot_feature = 0,
           plot_confidence_interval = CBool False, plot_avg_output = PyNone\<rparr>, shap_fitted)"
  by (simp add: SHAP_plot_def SHAP_plot_head_example SHAP_eval_fitted_example
      plot_after_eval_def select_shap_values_def)

theorem SHAP_plot_raises_before_rendering_witness:
  "CBool False \<noteq> CStr ''shap_values''
   \<and> (\<exists>e st1. SHAP_plot env_example shap_fitted 0 (CBool False) (CBool False) (PyInt 3) (PyInt 5)
          False = (Inl e, st1))
   \<and> SHAP_plot env_example shap_fitted 0 (CBool False) (CBool False) (PyInt 3) (PyInt 5) False
       = (Inl TypeError, shap_fitted)"
proof -
  have h: "CBool False \<noteq> CStr ''shap_values''" by simp
  have r: "\<exists>e st1. SHAP_plot env_example shap_fitted 0 (CBool False) (CBool False) (PyInt 3)
      (PyInt 5) False = (Inl e, st1)"
    by (rule SHAP_plot_raises_before_rendering [OF h])
  have t: "SHAP_plot env_example shap_fitted 0 (CBool False) (CBool False) (PyInt 3) (PyInt 5) False
       = (Inl TypeError, shap_fitted)"
    by (simp add: SHAP_plot_def SHAP_plot_head_example SHAP_eval_fitted_example
        plot_after_eval_def select_shap_values_None)
  show ?thesis by (intro conjI h r t)
qed


section \<open>Legacy ALE: a second fit\<close>

text \<open>
  The loop adds one entry per feature to the two dicts it is given and keeps
  the others; \<open>fit\<close> starts it from two empty dicts.
\<close>

lemma ALE_fit_loop_dom:
  "ALE_fit_loop L st fs alg funcs params = Inr (funcs1, params1) \<Longrightarrow>
     dom funcs1 = dom funcs \<union> feature_key ` set fs
     \<and> dom params1 = dom params \<union> feature_key ` set fs"
proof (induction fs arbitrary: funcs params)
  case Nil
  then show ?case by simp
next
  case (Cons s ss)
  from Cons.prems obtain p where
    p: "compute_ale_parameters L (ale_D st) (ale_data st) (ale_model st) s alg = Inr p"
    and r: "ALE_fit_loop L st ss alg (funcs(feature_key s \<mapsto> ale_func L p))
              (params(feature_key s \<mapsto> p)) = Inr (funcs1, params1)"
    by (auto simp: ebind_eq_Inr)
  from Cons.IH [OF r] show ?case by auto
qed

lemma ALE_fit_loop_params:
  "ALE_fit_loop L st fs alg funcs params = Inr (funcs1, params1) \<Longrightarrow> s \<in> set fs \<Longrightarrow>
     \<exists>p. compute_ale_parameters L (ale_D st) (ale_data st) (ale_model st) s alg = Inr p
       \<and> params1 (feature_key s) = Some p \<and> funcs1 (feature_key s) = Some (ale_func L p)"
proof (induction fs arbitrary: funcs params)
  case Nil
  then show ?case by simp
next
  case (Cons t ss)
  from Cons.prems(1) obtain p where
    p: "compute_ale_parameters L (ale_D st) (ale_data st) (ale_model st) t alg = Inr p"
    and r: "ALE_fit_loop L st ss alg (funcs(feature_key t \<mapsto> ale_func L p))
              (params(feature_key t \<mapsto> p)) = Inr (funcs1, params1)"
    by (auto simp: ebind_eq_Inr)
  show ?case
  proof (cases "s \<in> set ss")
    case True
    from Cons.IH [OF r True] show ?thesis .
  next
    case False
    with Cons.prems(2) have st: "s = t" by simp
    have keep: "ALE_fit_loop L st ss alg f0 p0 = Inr (f1, p1) \<Longrightarrow> k \<notin> feature_key ` set ss \<Longrightarrow>
        f1 k = f0 k \<and> p1 k = p0 k" for f0 p0 f1 p1 k
    proof (induction ss arbitrary: f0 p0)
      case Nil
      then show ?case by simp
    next
      case (Cons u us)
      from Cons.prems(1) obtain q where
        "ALE_fit_loop L st us alg (f0(feature_key u \<mapsto> ale_func L q))
              (p0(feature_key u \<mapsto> q)) = Inr (f1, p1)"
        by (auto simp: ebind_eq_Inr)
      from Cons.IH [OF this] Cons.prems(2) show ?case by auto
    qed
    have "feature_key s \<notin> feature_key ` set ss"
      using False by (auto simp: feature_key_inj)
    from keep [OF r this] p st show ?thesis by simp
  qed
qed

text \<open>The features a call of \<open>fit\<close> requests.\<close>

definition requested :: "ale \<Rightarrow> features \<Rightarrow> int list" where
  "requested st feats =
     (case feats of FeatAll \<Rightarrow> map int [0..<ale_D st] | FeatList l \<Rightarrow> l | FeatInt i \<Rightarrow> [i])"

text \<open>
  C9. Whenever \<open>fit\<close> returns, from whatever state of the object and so also
  after an earlier \<open>fit\<close> with another feature list, the stored feature-effect
  map and parameter map are those of this call alone: a feature has an entry
  exactly when this call requested it, and the entry holds the parameters (and
  the function closed over them) computed in this call. Entries of an earlier
  call for features not requested again are gone.
\<close>

theorem ALE_fit_overwrites:
  assumes "ALE_fit L st feats alg = Inr st1"
  shows "\<exists>funcs params. ale_feature_effect st1 = Some funcs \<and> ale_params st1 = Some params
     \<and> (\<forall>s. (funcs (feature_key s) \<noteq> None) = (s \<in> set (requested st feats)))
     \<and> (\<forall>s. (params (feature_key s) \<noteq> None) = (s \<in> set (requested st feats)))
     \<and> dom funcs = feature_key ` set (requested st feats)
     \<and> dom params = feature_key ` set (requested st feats)
     \<and> (\<forall>s \<in> set (requested st feats). \<exists>p.
           compute_ale_parameters L (ale_D st) (ale_data st) (ale_model st) s alg = Inr p
           \<and> params (feature_key s) = Some p \<and> funcs (feature_key s) = Some (ale_func L p))"
proof -
  from assms obtain fs funcs params where
    fs: "fs = requested st feats"
    and l: "ALE_fit_loop L st fs alg Map.empty Map.empty = Inr (funcs, params)"
    and s: "st1 = st\<lparr>ale_feature_effect := Some funcs, ale_params := Some params\<rparr>"
    by (cases feats) (auto simp: ALE_fit_def requested_def ebind_eq_Inr)
  from ALE_fit_loop_dom [OF l] have d: "dom funcs = feature_key ` set fs"
    "dom params = feature_key ` set fs" by simp_all
  have k: "(feature_key s \<in> feature_key ` set fs) = (s \<in> set fs)" for s
    by (auto simp: feature_key_inj)
  have m: "(funcs (feature_key s) \<noteq> None) = (s \<in> set fs)"
    "(params (feature_key s) \<noteq> None) = (s \<in> set fs)" for s
  proof -
    have "(funcs (feature_key s) \<noteq> None) = (feature_key s \<in> dom funcs)"
      "(params (feature_key s) \<noteq> None) = (feature_key s \<in> dom params)"
      by (simp_all only: domIff)
    then show "(funcs (feature_key s) \<noteq> None) = (s \<in> set fs)"
      "(params (feature_key s) \<noteq> None) = (s \<in> set fs)"
      by (simp_all only: d k)
  qed
  have v: "\<forall>s \<in> set fs. \<exists>p.
           compute_ale_parameters L (ale_D st) (ale_data st) (ale_model st) s alg = Inr p
           \<and> params (feature_key s) = Some p \<and> funcs (feature_key s) = Some (ale_func L p)"
    using ALE_fit_loop_params [OF l] by blast
  show ?thesis
    using d m v unfolding s fs by simp
qed

text \<open>
  An example: two features, fitted first for \<open>[0, 1]\<close> and then for \<open>[1]\<close>.
\<close>

definition legacy_env_example :: legacy_env where
  "legacy_env_example =
     \<lparr>create_fix_size_bins = (\<lambda>col K. Inr [0, 1]),
      compute_data_effect = (\<lambda>rows f lims feature. Inr (map (\<lambda>r. 1) rows)),
      compute_fe_parameters = (\<lambda>col eff lims m. Inr [''z'' \<mapsto> ANum 0]),
      accumulated_effect = (\<lambda>x lims eff d square. Inr x)\<rparr>"

definition ale_example :: ale where
  "ale_example =
     \<lparr>ale_D = 2, ale_data = [[0, 1], [1, 0]], ale_model = PyFun (map hd),
      ale_data_effect = None, ale_feature_effect = None, parameters = None,
      ale_params = None\<rparr>"

definition ale_params_example :: "string \<rightharpoonup> ale_value" where
  "ale_params_example = [''z'' \<mapsto> ANum 0, ''method'' \<mapsto> AStr ''fixed-size'']"

definition ale_first :: ale where
  "ale_first = ale_example
     \<lparr>ale_feature_effect := Some [''feature_0'' \<mapsto> ale_func legacy_env_example ale_params_example,
                                 ''feature_1'' \<mapsto> ale_func legacy_env_example ale_params_example],
      ale_params := Some [''feature_0'' \<mapsto> ale_params_example,
                          ''feature_1'' \<mapsto> ale_params_example]\<rparr>"

definition ale_second :: ale where
  "ale_second = ale_example
     \<lparr>ale_feature_effect := Some [''feature_1'' \<mapsto> ale_func legacy_env_example ale_params_example],
      ale_params := Some [''feature_1'' \<mapsto> ale_params_example]\<rparr>"

lemma compute_ale_parameters_example:
  "compute_ale_parameters legacy_env_example 2 [[0, 1], [1, 0]] f 0 Map.empty = Inr ale_params_example"
  "compute_ale_parameters legacy_env_example 2 [[0, 1], [1, 0]] f 1 Map.empty = Inr ale_params_example"
  by (simp_all add: compute_ale_parameters_def legacy_env_example_def np_column_def py_pos_def
      ale_params_example_def)



lemma ALE_fit_loop_example:
  "ALE_fit_loop legacy_env_example ale_example [0, 1] Map.empty Map.empty Map.empty =
     Inr ([''feature_0'' \<mapsto> ale_func legacy_env_example ale_params_example,
           ''feature_1'' \<mapsto> ale_func legacy_env_example ale_params_example],
          [''feature_0'' \<mapsto> ale_params_example, ''feature_1'' \<mapsto> ale_params_example])"
  by (simp add: ale_example_def compute_ale_parameters_example)


lemma ale_first_fields:
  "ale_D ale_first = 2" "ale_data ale_first = [[0, 1], [1, 0]]" "ale_model ale_first = PyFun (map hd)"
  by (simp_all add: ale_first_def ale_example_def)

lemma ALE_fit_loop_second_example:
  "ALE_fit_loop legacy_env_example ale_first [1] Map.empty Map.empty Map.empty =
     Inr ([''feature_1'' \<mapsto> ale_func legacy_env_example ale_params_example],
          [''feature_1'' \<mapsto> ale_params_example])"
  by (simp add: ale_first_fields compute_ale_parameters_example)

lemma ALE_fit_example:
  "ALE_fit legacy_env_example ale_example (FeatList [0, 1]) Map.empty = Inr ale_first"
  "ALE_fit legacy_env_example ale_first (FeatList [1]) Map.empty = Inr ale_second"
proof -
  show "ALE_fit legacy_env_example ale_example (FeatList [0, 1]) Map.empty = Inr ale_first"
    by (simp add: ALE_fit_def ALE_fit_loop_example ale_first_def del: ALE_fit_loop.simps)
  show "ALE_fit legacy_env_example ale_first (FeatList [1]) Map.empty = Inr ale_second"
    by (simp add: ALE_fit_def ALE_fit_loop_second_example del: ALE_fit_loop.simps)
      (simp add: ale_first_def ale_second_def)
qed


theorem ALE_fit_overwrites_witness:
  "ALE_fit legacy_env_example ale_example (FeatList [0, 1]) Map.empty = Inr ale_first
   \<and> ALE_fit legacy_env_example ale_first (FeatList [1]) Map.empty = Inr ale_second
   \<and> (\<exists>funcs params. ale_feature_effect ale_first = Some funcs \<and> ale_params ale_first = Some params
        \<and> funcs (feature_key 0) \<noteq> None \<and> params (feature_key 0) \<noteq> None
        \<and> funcs (feature_key 1) \<noteq> None \<and> params (feature_key 1) \<noteq> None)
   \<and> (\<exists>funcs params. ale_feature_effect ale_second = Some funcs \<and> ale_params ale_second = Some params
        \<and> funcs (feature_key 0) = None \<and> params (feature_key 0) = None
        \<and> funcs (feature_key 1) \<noteq> None \<and> params (feature_key 1) \<noteq> None)"
proof -
  have r1: "requested ale_example (FeatList [0, 1]) = [0, 1]"
    and r2: "requested ale_first (FeatList [1]) = [1]"
    by (simp_all add: requested_def)
  have a: "\<exists>funcs params. ale_feature_effect ale_first = Some funcs
        \<and> ale_params ale_first = Some params
        \<and> funcs (feature_key 0) \<noteq> None \<and> params (feature_key 0) \<noteq> None
        \<and> funcs (feature_key 1) \<noteq> None \<and> params (feature_key 1) \<noteq> None"
  proof -
    from ALE_fit_overwrites [OF ALE_fit_example(1)] obtain f1 where
      "\<exists>params. ale_feature_effect ale_first = Some f1 \<and> ale_params ale_first = Some params
         \<and> (\<forall>s. (f1 (feature_key s) \<noteq> None) = (s \<in> set [0, 1]))
         \<and> (\<forall>s. (params (feature_key s) \<noteq> None) = (s \<in> set [0, 1]))
         \<and> dom f1 = feature_key ` set [0, 1]
         \<and> dom params = feature_key ` set [0, 1]
         \<and> (\<forall>s \<in> set [0, 1]. \<exists>p.
               compute_ale_parameters legacy_env_example (ale_D ale_example) (ale_data ale_example)
                 (ale_model ale_example) s Map.empty = Inr p
               \<and> params (feature_key s) = Some p
               \<and> f1 (feature_key s) = Some (ale_func legacy_env_example p))"
      unfolding r1 ..
    then obtain p1 where
      e: "ale_feature_effect ale_first = Some f1" "ale_params ale_first = Some p1"
      and f: "\<forall>s. (f1 (feature_key s) \<noteq> None) = (s \<in> set [0, 1])"
      and p: "\<forall>s. (p1 (feature_key s) \<noteq> None) = (s \<in> set [0, 1])"
      by (elim exE conjE)
    have "f1 (feature_key 0) \<noteq> None" "f1 (feature_key 1) \<noteq> None"
      using f [rule_format, of 0] f [rule_format, of 1] by (simp_all del: feature_key_0 feature_key_1)
    moreover have "p1 (feature_key 0) \<noteq> None" "p1 (feature_key 1) \<noteq> None"
      using p [rule_format, of 0] p [rule_format, of 1] by (simp_all del: feature_key_0 feature_key_1)
    ultimately show ?thesis using e by (intro exI [of _ f1] exI [of _ p1] conjI)
  qed
  have b: "\<exists>funcs params. ale_feature_effect ale_second = Some funcs
        \<and> ale_params ale_second = Some params
        \<and> funcs (feature_key 0) = None \<and> params (feature_key 0) = None
        \<and> funcs (feature_key 1) \<noteq> None \<and> params (feature_key 1) \<noteq> None"
  proof -
    from ALE_fit_overwrites [OF ALE_fit_example(2)] obtain f2 where
      "\<exists>params. ale_feature_effect ale_second = Some f2 \<and> ale_params ale_second = Some params
         \<and> (\<forall>s. (f2 (feature_key s) \<noteq> None) = (s \<in> set [1]))
         \<and> (\<forall>s. (params (feature_key s) \<noteq> None) = (s \<in> set [1]))
         \<and> dom f2 = feature_key ` set [1]
         \<and> dom params = feature_key ` set [1]
         \<and> (\<forall>s \<in> set [1]. \<exists>p.
               compute_ale_parameters legacy_env_example (ale_D ale_first) (ale_data ale_first)
                 (ale_model ale_first) s Map.empty = Inr p
               \<and> params (feature_key s) = Some p
               \<and> f2 (feature_key s) = Some (ale_func legacy_env_example p))"
      unfolding r2 ..
    then obtain p2 where
      e: "ale_feature_effect ale_second = Some f2" "ale_params ale_second = Some p2"
      and f: "\<forall>s. (f2 (feature_key s) \<noteq> None) = (s \<in> set [1])"
      and p: "\<forall>s. (p2 (feature_key s) \<noteq> None) = (s \<in> set [1])"
      by (elim exE conjE)
    have "f2 (feature_key 0) = None" "f2 (feature_key 1) \<noteq> None"
      using f [rule_format, of 0] f [rule_format, of 1] by (simp_all del: feature_key_0 feature_key_1)
    moreover have "p2 (feature_key 0) = None" "p2 (feature_key 1) \<noteq> None"
      using p [rule_format, of 0] p [rule_format, of 1] by (simp_all del: feature_key_0 feature_key_1)
    ultimately show ?thesis using e by (intro exI [of _ f2] exI [of _ p2] conjI)
  qed
  show ?thesis by (intro conjI ALE_fit_example a b)
qed

end
